theory Spec2Isabelle
  imports Complex_Main "HOL-Library.Sublist" "HOL-Library.AList"
begin

section \<open>Python strings\<close>

text \<open>
  A Python \<open>str\<close> is a sequence of Unicode code points, so it is modelled as a list of
  natural numbers; \<open>str\<close> turns a literal of the source into that list.

  Floats are modelled as reals: sums, products and quotients are exact.

  \<open>str.upper\<close> and \<open>str.lower\<close> are modelled by their action on the ASCII letters, which
  is where every label table and keyword of the repository lives; the other code points
  are kept as they are.
\<close>

type_synonym pystr = "nat list"

definition str :: "string \<Rightarrow> pystr" where
  "str s = map of_char s"

definition upper_cp :: "nat \<Rightarrow> nat" where
  "upper_cp c = (if 97 \<le> c \<and> c \<le> 122 then c - 32 else c)"

definition lower_cp :: "nat \<Rightarrow> nat" where
  "lower_cp c = (if 65 \<le> c \<and> c \<le> 90 then c + 32 else c)"

definition str_upper :: "pystr \<Rightarrow> pystr" where
  "str_upper s = map upper_cp s"

definition str_lower :: "pystr \<Rightarrow> pystr" where
  "str_lower s = map lower_cp s"

text \<open>\<open>sub in s\<close> on strings: \<open>sub\<close> occurs in \<open>s\<close> as a contiguous block.\<close>

fun str_contains :: "pystr \<Rightarrow> pystr \<Rightarrow> bool" where
  "str_contains sub [] = (sub = [])"
| "str_contains sub (c # cs) = (prefix sub (c # cs) \<or> str_contains sub cs)"

text \<open>
  The code points for which \<open>str.isspace\<close> holds; \<open>str.strip()\<close> removes them from both
  ends.
\<close>

definition is_space :: "nat \<Rightarrow> bool" where
  "is_space c =
     ((9 \<le> c \<and> c \<le> 13) \<or> (28 \<le> c \<and> c \<le> 32) \<or> c = 133 \<or> c = 160 \<or> c = 5760
      \<or> (8192 \<le> c \<and> c \<le> 8202) \<or> c = 8232 \<or> c = 8233 \<or> c = 8239 \<or> c = 8287
      \<or> c = 12288)"

definition str_strip :: "pystr \<Rightarrow> pystr" where
  "str_strip s = rev (dropWhile is_space (rev (dropWhile is_space s)))"

section \<open>Dictionaries in insertion order\<close>

text \<open>
  A \<open>dict\<close> whose iteration order matters is an association list in insertion order:
  \<open>AList.update\<close> overwrites a key in place and appends a new key at the end, as
  \<open>d[k] = v\<close> does; \<open>dict_get\<close> is \<open>d.get(k, default)\<close>.
\<close>

definition dict_get :: "('k \<times> 'v) list \<Rightarrow> 'k \<Rightarrow> 'v \<Rightarrow> 'v" where
  "dict_get d k dflt = (case map_of d k of None \<Rightarrow> dflt | Some v \<Rightarrow> v)"

section \<open>sentiment\_analyzer.py: the label normalizer\<close>

record raw_result =
  label :: pystr
  score :: real

type_synonym scores = "(pystr \<times> real) list"

text \<open>\<open>normalized_scores[k] = normalized_scores.get(k, 0) + score\<close>\<close>

definition add_score :: "scores \<Rightarrow> pystr \<Rightarrow> real \<Rightarrow> scores" where
  "add_score d k s = AList.update k (dict_get d k 0 + s) d"

text \<open>The body of the loop over \<open>results\<close>.\<close>

definition normalize_one :: "scores \<Rightarrow> raw_result \<Rightarrow> scores" where
  "normalize_one normalized_scores result =
     (let lbl = str_upper (label result); sc = score result in
      if lbl \<in> set (map str [''POSITIVE'', ''POS'', ''LABEL_2'', ''5 STARS'', ''4 STARS''])
      then add_score normalized_scores (str ''POSITIVE'') sc
      else if lbl \<in> set (map str [''NEGATIVE'', ''NEG'', ''LABEL_0'', ''1 STAR'', ''2 STARS''])
      then add_score normalized_scores (str ''NEGATIVE'') sc
      else if lbl \<in> set (map str [''NEUTRAL'', ''NEU'', ''LABEL_1'', ''3 STARS''])
      then add_score normalized_scores (str ''NEUTRAL'') sc
      else if str_contains (str ''positive'') (str_lower lbl)
              \<or> str_contains (str ''pos'') (str_lower lbl)
      then add_score normalized_scores (str ''POSITIVE'') sc
      else if str_contains (str ''negative'') (str_lower lbl)
              \<or> str_contains (str ''neg'') (str_lower lbl)
      then add_score normalized_scores (str ''NEGATIVE'') sc
      else add_score normalized_scores (str ''NEUTRAL'') sc)"

text \<open>The dictionary after the loop over \<open>results\<close>, before the missing keys are added.\<close>

definition accumulate_scores :: "raw_result list \<Rightarrow> scores" where
  "accumulate_scores results = foldl normalize_one [] results"

text \<open>\<open>if sentiment not in normalized_scores: normalized_scores[sentiment] = 0.0\<close>\<close>

definition ensure_key :: "scores \<Rightarrow> pystr \<Rightarrow> scores" where
  "ensure_key d k = (if map_of d k = None then AList.update k 0 d else d)"

definition normalize_sentiment_labels :: "raw_result list \<Rightarrow> scores" where
  "normalize_sentiment_labels results =
     foldl ensure_key (accumulate_scores results)
       (map str [''POSITIVE'', ''NEGATIVE'', ''NEUTRAL''])"

section \<open>Exceptions\<close>

text \<open>
  An exception is a value carrying \<open>str(e)\<close>. The handlers of the repository tell
  \<open>LangDetectError\<close> from every other \<open>Exception\<close>; a function that can raise returns
  \<open>exn + 'a\<close>, and \<open>try_except\<close> is a \<open>try\<close> block with its handler.
\<close>

datatype exn = Exception pystr | LangDetectError pystr

fun exn_str :: "exn \<Rightarrow> pystr" where
  "exn_str (Exception m) = m"
| "exn_str (LangDetectError m) = m"

definition try_except :: "exn + 'a \<Rightarrow> (exn \<Rightarrow> exn + 'a) \<Rightarrow> exn + 'a" where
  "try_except body handler = (case body of Inl e \<Rightarrow> handler e | Inr v \<Rightarrow> Inr v)"

section \<open>sentiment\_analyzer.py: analyze\_sentiment\<close>

text \<open>
  The pipeline \<open>self.classifier\<close> is a parameter: on a text it raises or returns a list,
  either of label/score entries or of lists of them.
\<close>

datatype classifier_output = Flat "raw_result list" | Nested "raw_result list list"

type_synonym classifier = "pystr \<Rightarrow> exn + classifier_output"

text \<open>
  \<open>if isinstance(results[0], list): results = results[0]\<close>; \<open>results[0]\<close> of an empty
  list raises IndexError.
\<close>

fun unwrap_results :: "classifier_output \<Rightarrow> exn + raw_result list" where
  "unwrap_results (Flat []) = Inl (Exception (str ''list index out of range''))"
| "unwrap_results (Nested []) = Inl (Exception (str ''list index out of range''))"
| "unwrap_results (Flat (r # rs)) = Inr (r # rs)"
| "unwrap_results (Nested (rs # rest)) = Inr rs"

text \<open>
  \<open>max(items, key=f)\<close>: the first item in iteration order whose key is maximal; an
  item replaces the current one only when its key is strictly greater.
\<close>

fun max_from :: "('a \<Rightarrow> real) \<Rightarrow> 'a \<Rightarrow> 'a list \<Rightarrow> 'a" where
  "max_from key best [] = best"
| "max_from key best (x # xs) = max_from key (if key best < key x then x else best) xs"

definition py_max :: "('a \<Rightarrow> real) \<Rightarrow> 'a list \<Rightarrow> exn + 'a" where
  "py_max key xs =
     (case xs of
        [] \<Rightarrow> Inl (Exception (str ''max() arg is an empty sequence''))
      | x # rest \<Rightarrow> Inr (max_from key x rest))"

record sentiment_result =
  sentiment :: pystr
  confidence :: real
  all_scores :: scores
  error :: "pystr option"

text \<open>The result of the empty-text guard and of the handler, up to the message.\<close>

definition neutral_result :: "pystr \<Rightarrow> sentiment_result" where
  "neutral_result message =
     \<lparr>sentiment = str ''NEUTRAL'', confidence = 0,
      all_scores = [(str ''POSITIVE'', 0), (str ''NEGATIVE'', 0), (str ''NEUTRAL'', 1)],
      error = Some message\<rparr>"

text \<open>The body of the \<open>try\<close> block.\<close>

definition analyze_body :: "classifier \<Rightarrow> pystr \<Rightarrow> exn + sentiment_result" where
  "analyze_body classifier text0 =
     (let text1 = str_strip text0;
          text2 = (if length text1 > 512 then take 512 text1 else text1)
      in case classifier text2 of
           Inl e \<Rightarrow> Inl e
         | Inr output \<Rightarrow>
             (case unwrap_results output of
                Inl e \<Rightarrow> Inl e
              | Inr results \<Rightarrow>
                  (let normalized_scores = normalize_sentiment_labels results
                   in case py_max snd normalized_scores of
                        Inl e \<Rightarrow> Inl e
                      | Inr max_sentiment \<Rightarrow>
                          Inr \<lparr>sentiment = fst max_sentiment,
                               confidence = snd max_sentiment * 100,
                               all_scores = normalized_scores,
                               error = None\<rparr>)))"

definition analyze_sentiment :: "classifier \<Rightarrow> pystr \<Rightarrow> exn + sentiment_result" where
  "analyze_sentiment classifier text0 =
     (if text0 = [] \<or> str_strip text0 = []
      then Inr (neutral_result (str ''Empty text provided''))
      else try_except (analyze_body classifier text0)
             (\<lambda>e. Inr (neutral_result (str ''Error analyzing sentiment: '' @ exn_str e))))"

section \<open>language\_detector.py\<close>

definition language_names :: "(pystr \<times> pystr) list" where
  "language_names =
     [(str ''en'', str ''English''),
      (str ''hi'', str ''Hindi''),
      (str ''te'', str ''Telugu''),
      (str ''ta'', str ''Tamil''),
      (str ''kn'', str ''Kannada''),
      (str ''ml'', str ''Malayalam''),
      (str ''bn'', str ''Bengali''),
      (str ''gu'', str ''Gujarati''),
      (str ''mr'', str ''Marathi''),
      (str ''pa'', str ''Punjabi''),
      (str ''or'', str ''Odia''),
      (str ''as'', str ''Assamese''),
      (str ''ur'', str ''Urdu''),
      (str ''ne'', str ''Nepali''),
      (str ''si'', str ''Sinhala''),
      (str ''my'', str ''Myanmar''),
      (str ''th'', str ''Thai''),
      (str ''vi'', str ''Vietnamese''),
      (str ''id'', str ''Indonesian''),
      (str ''ms'', str ''Malay''),
      (str ''tl'', str ''Filipino''),
      (str ''zh-cn'', str ''Chinese (Simplified)''),
      (str ''zh-tw'', str ''Chinese (Traditional)''),
      (str ''ja'', str ''Japanese''),
      (str ''ko'', str ''Korean''),
      (str ''ar'', str ''Arabic''),
      (str ''fa'', str ''Persian''),
      (str ''he'', str ''Hebrew''),
      (str ''tr'', str ''Turkish''),
      (str ''ru'', str ''Russian''),
      (str ''uk'', str ''Ukrainian''),
      (str ''bg'', str ''Bulgarian''),
      (str ''hr'', str ''Croatian''),
      (str ''cs'', str ''Czech''),
      (str ''da'', str ''Danish''),
      (str ''nl'', str ''Dutch''),
      (str ''et'', str ''Estonian''),
      (str ''fi'', str ''Finnish''),
      (str ''fr'', str ''French''),
      (str ''de'', str ''German''),
      (str ''el'', str ''Greek''),
      (str ''hu'', str ''Hungarian''),
      (str ''is'', str ''Icelandic''),
      (str ''ga'', str ''Irish''),
      (str ''it'', str ''Italian''),
      (str ''lv'', str ''Latvian''),
      (str ''lt'', str ''Lithuanian''),
      (str ''mk'', str ''Macedonian''),
      (str ''mt'', str ''Maltese''),
      (str ''no'', str ''Norwegian''),
      (str ''pl'', str ''Polish''),
      (str ''pt'', str ''Portuguese''),
      (str ''ro'', str ''Romanian''),
      (str ''sk'', str ''Slovak''),
      (str ''sl'', str ''Slovenian''),
      (str ''es'', str ''Spanish''),
      (str ''sv'', str ''Swedish''),
      (str ''cy'', str ''Welsh'')]"

definition supported_languages :: "(pystr \<times> pystr) list" where
  "supported_languages =
     [(str ''en'', str ''English''),
      (str ''hi'', str ''Hindi''),
      (str ''te'', str ''Telugu'')]"

text \<open>
  An entry of what \<open>detect_langs\<close> returns, most probable first; \<open>detect_langs\<close> itself
  is a parameter that raises or returns such a list.
\<close>

record detection =
  lang :: pystr
  prob :: real

type_synonym detect_langs = "pystr \<Rightarrow> exn + detection list"

record detection_entry =
  entry_language :: pystr
  entry_language_code :: pystr
  entry_confidence :: real

text \<open>
  The result dictionary; the key \<open>all_detections\<close> is present on success only. The fields
  \<open>lang_confidence\<close> and \<open>lang_error\<close> are the keys \<open>confidence\<close> and \<open>error\<close>.
\<close>

record language_result =
  language :: pystr
  language_code :: pystr
  lang_confidence :: real
  is_supported :: bool
  all_detections :: "detection_entry list option"
  lang_error :: "pystr option"

definition unknown_language :: "pystr \<Rightarrow> language_result" where
  "unknown_language message =
     \<lparr>language = str ''Unknown'', language_code = str ''unknown'', lang_confidence = 0,
      is_supported = False, all_detections = None, lang_error = Some message\<rparr>"

text \<open>\<open>self.language_names.get(code, f'Unknown ({code})')\<close>\<close>

definition language_name :: "pystr \<Rightarrow> pystr" where
  "language_name code = dict_get language_names code (str ''Unknown ('' @ code @ str '')'')"

text \<open>The body of the \<open>try\<close> block.\<close>

definition detect_body :: "detect_langs \<Rightarrow> pystr \<Rightarrow> exn + language_result" where
  "detect_body detect_langs text0 =
     (let text1 = str_strip text0
      in case detect_langs text1 of
           Inl e \<Rightarrow> Inl e
         | Inr language_probabilities \<Rightarrow>
             (case language_probabilities of
                [] \<Rightarrow> Inr (unknown_language (str ''Could not detect language''))
              | top_language # _ \<Rightarrow>
                  (let code = lang top_language;
                       conf = prob top_language;
                       name = language_name code;
                       supported = (map_of supported_languages code \<noteq> None)
                   in Inr \<lparr>language = name, language_code = code, lang_confidence = conf,
                           is_supported = supported,
                           all_detections =
                             Some (map (\<lambda>l. \<lparr>entry_language = language_name (lang l),
                                              entry_language_code = lang l,
                                              entry_confidence = prob l\<rparr>)
                                     (take 3 language_probabilities)),
                           lang_error = None\<rparr>)))"

definition detect_language :: "detect_langs \<Rightarrow> pystr \<Rightarrow> exn + language_result" where
  "detect_language detect_langs text0 =
     (if text0 = [] \<or> str_strip text0 = []
      then Inr (unknown_language (str ''Empty text provided''))
      else try_except (detect_body detect_langs text0)
             (\<lambda>e. case e of
                     LangDetectError m \<Rightarrow>
                       Inr (unknown_language (str ''Language detection error: '' @ m))
                   | Exception m \<Rightarrow>
                       Inr (unknown_language
                              (str ''Unexpected error in language detection: '' @ m))))"

section \<open>simple\_app.py: the rule-based fallback\<close>

text \<open>
  The fallback functions return dictionaries whose keys depend on the branch taken, so
  their results are association lists from key to value, in the order of the literal.
\<close>

datatype pyval = PyStr pystr | PyInt int | PyFloat real | PyNone

type_synonym pydict = "(string \<times> pyval) list"

definition positive_words :: "pystr list" where
  "positive_words =
     map str
       [''good'', ''great'', ''excellent'', ''amazing'', ''wonderful'', ''fantastic'',
        ''awesome'', ''love'', ''like'', ''happy'', ''best'', ''perfect'',
        ''brilliant'', ''outstanding'', ''superb'', ''marvelous'', ''terrific'',
        ''fabulous'', ''accha'', ''achha'', ''bahut'', ''sundar'', ''khushi'',
        ''prasanna'', ''uttam'', ''shandar'', ''bagundi'', ''manchidi'', ''santosham'',
        ''bavundi'', ''chala'', ''bagunna'']"

definition negative_words :: "pystr list" where
  "negative_words =
     map str
       [''bad'', ''terrible'', ''awful'', ''horrible'', ''hate'', ''dislike'', ''sad'',
        ''angry'', ''worst'', ''poor'', ''disappointing'', ''disgusting'', ''pathetic'',
        ''useless'', ''annoying'', ''frustrating'', ''bura'', ''kharab'', ''ganda'',
        ''dukh'', ''pareshani'', ''galat'', ''bekaar'', ''chedu'', ''daridram'',
        ''kastam'', ''badha'', ''kopam'', ''vishaadam'']"

definition simple_sentiment_analysis :: "pystr \<Rightarrow> pydict" where
  "simple_sentiment_analysis text0 =
     (if text0 = [] then [(''sentiment'', PyStr (str ''NEUTRAL'')), (''confidence'', PyFloat 0)]
      else
        (let text1 = str_lower text0;
             positive_count = int (length (filter (\<lambda>word. str_contains word text1) positive_words));
             negative_count = int (length (filter (\<lambda>word. str_contains word text1) negative_words));
             (sentiment, confidence) =
               (if positive_count > negative_count
                then (str ''POSITIVE'', min 90 (60 + (positive_count - negative_count) * 10))
                else if negative_count > positive_count
                then (str ''NEGATIVE'', min 90 (60 + (negative_count - positive_count) * 10))
                else (str ''NEUTRAL'', 50))
         in [(''sentiment'', PyStr sentiment),
             (''confidence'', PyInt confidence),
             (''positive_score'', PyInt positive_count),
             (''negative_score'', PyInt negative_count)]))"

text \<open>
  \<open>c.isascii() and c.isalpha()\<close>: among the ASCII code points the letters are
  \<open>A\<close> to \<open>Z\<close> and \<open>a\<close> to \<open>z\<close>.
\<close>

definition is_ascii_alpha :: "nat \<Rightarrow> bool" where
  "is_ascii_alpha c = (c \<le> 127 \<and> ((65 \<le> c \<and> c \<le> 90) \<or> (97 \<le> c \<and> c \<le> 122)))"

text \<open>The Devanagari block is U+0900 to U+097F, the Telugu block U+0C00 to U+0C7F.\<close>

definition is_devanagari :: "nat \<Rightarrow> bool" where
  "is_devanagari c = (0x0900 \<le> c \<and> c \<le> 0x097F)"

definition is_telugu :: "nat \<Rightarrow> bool" where
  "is_telugu c = (0x0C00 \<le> c \<and> c \<le> 0x0C7F)"

definition detect_language_simple :: "pystr \<Rightarrow> pydict" where
  "detect_language_simple text0 =
     (if text0 = [] then [(''language'', PyStr (str ''Unknown'')), (''confidence'', PyFloat 0)]
      else
        (let english_chars = length (filter is_ascii_alpha text0);
             hindi_chars = length (filter is_devanagari text0);
             telugu_chars = length (filter is_telugu text0);
             total_chars = english_chars + hindi_chars + telugu_chars
         in if total_chars = 0
            then [(''language'', PyStr (str ''Unknown'')), (''confidence'', PyFloat 0)]
            else if hindi_chars > english_chars \<and> hindi_chars > telugu_chars
            then [(''language'', PyStr (str ''Hindi'')),
                  (''confidence'', PyFloat (real hindi_chars / real total_chars * 100))]
            else if telugu_chars > english_chars \<and> telugu_chars > hindi_chars
            then [(''language'', PyStr (str ''Telugu'')),
                  (''confidence'', PyFloat (real telugu_chars / real total_chars * 100))]
            else [(''language'', PyStr (str ''English'')),
                  (''confidence'', PyFloat (real english_chars / real total_chars * 100))]))"

text \<open>\<open>d[key]\<close>: a missing key raises KeyError, whose \<open>str\<close> is the quoted key.\<close>

definition dict_item :: "pydict \<Rightarrow> string \<Rightarrow> exn + pyval" where
  "dict_item d key =
     (case map_of d key of
        None \<Rightarrow> Inl (Exception ([39] @ str key @ [39]))
      | Some v \<Rightarrow> Inr v)"

section \<open>Batch analysis of a CSV file\<close>

text \<open>
  A data frame has its column names in order and its rows; a row gives the cell of each
  column, and \<open>render\<close> below is \<open>str\<close> on a cell. What the page shows is the list of
  Streamlit calls made, in order, each with the data it was given.
\<close>

record 'c dataframe =
  columns :: "pystr list"
  rows :: "(pystr \<Rightarrow> 'c) list"

datatype 'c ui_event =
    St_error pystr
  | St_info pystr
  | St_success pystr
  | St_subheader pystr
  | St_preview "'c list list"
  | St_progress real
  | St_status_text nat nat
  | St_empty
  | St_dataframe "pydict list"
  | St_metric pystr nat
  | St_plotly_chart "pydict list"
  | St_download_button "pydict list"

definition bind_exn :: "exn + 'a \<Rightarrow> ('a \<Rightarrow> exn + 'b) \<Rightarrow> exn + 'b" where
  "bind_exn m f = (case m of Inl e \<Rightarrow> Inl e | Inr v \<Rightarrow> f v)"

definition no_text_column_message :: pystr where
  "no_text_column_message =
     str ''No '' @ [39] @ str ''text'' @ [39]
       @ str '' column found in the CSV file. Please ensure your CSV has a column containing text data.''"

definition using_column_message :: "pystr \<Rightarrow> pystr" where
  "using_column_message text_column =
     str ''Using column '' @ [39] @ text_column @ [39] @ str '' for analysis''"

text \<open>\<open>[col for col in df.columns if 'text' in col.lower()]\<close>\<close>

definition text_columns :: "'c dataframe \<Rightarrow> pystr list" where
  "text_columns df = filter (\<lambda>col. str_contains (str ''text'') (str_lower col)) (columns df)"

text \<open>
  The loop over the rows: \<open>analyze_row\<close> builds the result row of one text, or raises;
  the calls made so far and the rows built so far are passed along.
\<close>

fun batch_loop ::
  "(pystr \<Rightarrow> exn + pydict) \<Rightarrow> ('c \<Rightarrow> pystr) \<Rightarrow> pystr \<Rightarrow> nat \<Rightarrow> (pystr \<Rightarrow> 'c) list \<Rightarrow> nat
     \<Rightarrow> 'c ui_event list \<Rightarrow> pydict list \<Rightarrow> 'c ui_event list \<times> (exn + pydict list)" where
  "batch_loop analyze_row render text_column total_rows [] idx ui results = (ui, Inr results)"
| "batch_loop analyze_row render text_column total_rows (row # rest) idx ui results =
     (let text0 = render (row text_column);
          ui' = ui @ [St_progress ((real idx + 1) / real total_rows),
                      St_status_text (idx + 1) total_rows]
      in case analyze_row text0 of
           Inl e \<Rightarrow> (ui', Inl e)
         | Inr result \<Rightarrow>
             batch_loop analyze_row render text_column total_rows rest (idx + 1) ui'
               (results @ [result]))"

definition count_sentiment :: "pystr \<Rightarrow> pydict list \<Rightarrow> nat" where
  "count_sentiment s results =
     length (filter (\<lambda>r. map_of r ''Sentiment'' = Some (PyStr s)) results)"

subsection \<open>app.py: analyze\_batch\_text\<close>

definition falsy :: "pystr option \<Rightarrow> bool" where
  "falsy e = (e = None \<or> e = Some [])"

text \<open>The row appended to \<open>results\<close> for one text.\<close>

definition app_row ::
  "(pystr \<Rightarrow> exn + sentiment_result) \<Rightarrow> (pystr \<Rightarrow> exn + language_result) \<Rightarrow> pystr
     \<Rightarrow> exn + pydict" where
  "app_row sentiment_analyzer language_detector text0 =
     bind_exn (language_detector text0) (\<lambda>detected_language.
     bind_exn (sentiment_analyzer text0) (\<lambda>sentiment_result.
       Inr [(''Original_Text'', PyStr text0),
            (''Detected_Language'', PyStr (language detected_language)),
            (''Language_Confidence'', PyFloat (lang_confidence detected_language)),
            (''Sentiment'',
               if falsy (error sentiment_result) then PyStr (sentiment sentiment_result)
               else PyStr (str ''ERROR'')),
            (''Sentiment_Confidence'',
               if falsy (error sentiment_result) then PyFloat (confidence sentiment_result)
               else PyInt 0),
            (''Positive_Score'',
               if falsy (error sentiment_result)
               then PyFloat (dict_get (all_scores sentiment_result) (str ''POSITIVE'') 0)
               else PyInt 0),
            (''Neutral_Score'',
               if falsy (error sentiment_result)
               then PyFloat (dict_get (all_scores sentiment_result) (str ''NEUTRAL'') 0)
               else PyInt 0),
            (''Negative_Score'',
               if falsy (error sentiment_result)
               then PyFloat (dict_get (all_scores sentiment_result) (str ''NEGATIVE'') 0)
               else PyInt 0),
            (''Error'',
               case error sentiment_result of
                 None \<Rightarrow> PyNone
               | Some m \<Rightarrow> if m = [] then PyNone else PyStr m)]))"

text \<open>
  What follows the loop. A frame built from no rows has no column \<open>Sentiment\<close>, so the
  first count raises KeyError there.
\<close>

definition app_report :: "pydict list \<Rightarrow> 'c ui_event list \<times> (exn + unit)" where
  "app_report results =
     (let shown = [St_empty, St_empty, St_subheader (str ''Batch Analysis Results''),
                   St_dataframe results]
      in if results = [] then (shown, Inl (Exception ([39] @ str ''Sentiment'' @ [39])))
         else (shown @
               [St_metric (str ''Positive'') (count_sentiment (str ''POSITIVE'') results),
                St_metric (str ''Neutral'') (count_sentiment (str ''NEUTRAL'') results),
                St_metric (str ''Negative'') (count_sentiment (str ''NEGATIVE'') results),
                St_metric (str ''Errors'') (count_sentiment (str ''ERROR'') results),
                St_plotly_chart results,
                St_download_button results], Inr ()))"

text \<open>
  \<open>uploaded\<close> is what \<open>pd.read_csv(uploaded_file)\<close> does: it raises or returns the frame.
  The handler around the whole function reports the exception.
\<close>

definition csv_error :: "exn \<Rightarrow> 'c ui_event" where
  "csv_error e = St_error (str ''Error processing CSV file: '' @ exn_str e)"

definition analyze_batch_text ::
  "exn + 'c dataframe \<Rightarrow> ('c \<Rightarrow> pystr) \<Rightarrow> (pystr \<Rightarrow> exn + sentiment_result)
     \<Rightarrow> (pystr \<Rightarrow> exn + language_result) \<Rightarrow> 'c ui_event list" where
  "analyze_batch_text uploaded render sentiment_analyzer language_detector =
     (case uploaded of
        Inl e \<Rightarrow> [csv_error e]
      | Inr df \<Rightarrow>
          (case text_columns df of
             [] \<Rightarrow> [St_error no_text_column_message]
           | text_column # _ \<Rightarrow>
               (case batch_loop (app_row sentiment_analyzer language_detector) render
                       text_column (length (rows df)) (rows df) 0
                       [St_info (using_column_message text_column)] [] of
                  (ui, Inl e) \<Rightarrow> ui @ [csv_error e]
                | (ui, Inr results) \<Rightarrow>
                    (case app_report results of
                       (shown, Inl e) \<Rightarrow> ui @ shown @ [csv_error e]
                     | (shown, Inr _) \<Rightarrow> ui @ shown))))"

subsection \<open>simple\_app.py: the batch tab of main\<close>

definition simple_row :: "pystr \<Rightarrow> exn + pydict" where
  "simple_row text0 =
     (let detected_language = detect_language_simple text0;
          sentiment_result = simple_sentiment_analysis text0
      in bind_exn (dict_item detected_language ''language'') (\<lambda>l.
         bind_exn (dict_item detected_language ''confidence'') (\<lambda>lc.
         bind_exn (dict_item sentiment_result ''sentiment'') (\<lambda>s.
         bind_exn (dict_item sentiment_result ''confidence'') (\<lambda>sc.
         bind_exn (dict_item sentiment_result ''positive_score'') (\<lambda>p.
         bind_exn (dict_item sentiment_result ''negative_score'') (\<lambda>n.
           Inr [(''Original_Text'', PyStr text0),
                (''Detected_Language'', l),
                (''Language_Confidence'', lc),
                (''Sentiment'', s),
                (''Sentiment_Confidence'', sc),
                (''Positive_Words'', p),
                (''Negative_Words'', n)])))))))"

definition simple_report :: "pydict list \<Rightarrow> 'c ui_event list \<times> (exn + unit)" where
  "simple_report results =
     (let shown = [St_empty, St_empty, St_subheader (str ''Batch Analysis Results''),
                   St_dataframe results]
      in if results = [] then (shown, Inl (Exception ([39] @ str ''Sentiment'' @ [39])))
         else (shown @
               [St_metric (str ''Positive'') (count_sentiment (str ''POSITIVE'') results),
                St_metric (str ''Neutral'') (count_sentiment (str ''NEUTRAL'') results),
                St_metric (str ''Negative'') (count_sentiment (str ''NEGATIVE'') results),
                St_download_button results], Inr ()))"

text \<open>
  The block under \<open>if uploaded_file is not None\<close>; \<open>clicked\<close> is what
  \<open>st.button("Start Batch Analysis")\<close> returns.
\<close>

definition main_batch_tab ::
  "pystr \<Rightarrow> exn + 'c dataframe \<Rightarrow> ('c \<Rightarrow> pystr) \<Rightarrow> bool \<Rightarrow> 'c ui_event list" where
  "main_batch_tab file_name uploaded render clicked =
     (case uploaded of
        Inl e \<Rightarrow> [csv_error e]
      | Inr df \<Rightarrow>
          (let ui0 = [St_success (str ''File uploaded: '' @ file_name),
                      St_subheader (str ''File Preview''),
                      St_preview (map (\<lambda>row. map row (columns df)) (take 5 (rows df)))]
           in case text_columns df of
                [] \<Rightarrow> ui0 @ [St_error no_text_column_message]
              | text_column # _ \<Rightarrow>
                  (let ui1 = ui0 @ [St_info (using_column_message text_column)]
                   in if clicked
                      then (case batch_loop simple_row render text_column (length (rows df))
                                   (rows df) 0 ui1 [] of
                              (ui, Inl e) \<Rightarrow> ui @ [csv_error e]
                            | (ui, Inr results) \<Rightarrow>
                                (case simple_report results of
                                   (shown, Inl e) \<Rightarrow> ui @ shown @ [csv_error e]
                                 | (shown, Inr _) \<Rightarrow> ui @ shown))
                      else ui1)))"

section \<open>Example inputs\<close>

text \<open>A classifier that answers every text with the same nested three-label output.\<close>

definition demo_classifier :: classifier where
  "demo_classifier t =
     Inr (Nested [[\<lparr>label = str ''LABEL_0'', score = 1/10\<rparr>,
                   \<lparr>label = str ''LABEL_1'', score = 2/10\<rparr>,
                   \<lparr>label = str ''LABEL_2'', score = 7/10\<rparr>]])"


text \<open>A classifier and a detector that always raise, and two detectors that answer.\<close>

definition failing_classifier :: classifier where
  "failing_classifier t = Inl (Exception (str ''model unavailable''))"

definition failing_detect_langs :: detect_langs where
  "failing_detect_langs t = Inl (LangDetectError (str ''No features in text.''))"

definition hindi_detect_langs :: detect_langs where
  "hindi_detect_langs t = Inr [\<lparr>lang = str ''hi'', prob = 9/10\<rparr>, \<lparr>lang = str ''mr'', prob = 1/10\<rparr>]"

definition french_detect_langs :: detect_langs where
  "french_detect_langs t = Inr [\<lparr>lang = str ''fr'', prob = 1\<rparr>]"


text \<open>Two uploaded frames of one row: one with two columns naming text, one with none.\<close>

definition reviews_frame :: "pystr dataframe" where
  "reviews_frame =
     \<lparr>columns = [str ''id'', str ''Review_Text'', str ''text''],
      rows = [\<lambda>col. if col = str ''id'' then str ''1''
                    else if col = str ''Review_Text'' then str ''good'' else str ''other'']\<rparr>"

definition numbers_frame :: "pystr dataframe" where
  "numbers_frame = \<lparr>columns = [str ''id'', str ''review''], rows = [\<lambda>col. str ''1'']\<rparr>"

section \<open>The matching policy as the specification words it\<close>

text \<open>
  The three synonym tables and the two-stage policy, written from the specification:
  an exact match without regard to case against the tables, then the substring fallback
  on the lower-cased raw label. \<open>normalize_one\<close> above is the code; the two are compared
  below.
\<close>

definition positive_synonyms :: "pystr list" where
  "positive_synonyms = map str [''POSITIVE'', ''POS'', ''LABEL_2'', ''4 STARS'', ''5 STARS'']"

definition negative_synonyms :: "pystr list" where
  "negative_synonyms = map str [''NEGATIVE'', ''NEG'', ''LABEL_0'', ''1 STAR'', ''2 STARS'']"

definition neutral_synonyms :: "pystr list" where
  "neutral_synonyms = map str [''NEUTRAL'', ''NEU'', ''LABEL_1'', ''3 STARS'']"

definition eq_ignore_case :: "pystr \<Rightarrow> pystr \<Rightarrow> bool" where
  "eq_ignore_case a b = (str_lower a = str_lower b)"

definition spec_bucket :: "pystr \<Rightarrow> pystr" where
  "spec_bucket raw =
     (if list_ex (eq_ignore_case raw) positive_synonyms then str ''POSITIVE''
      else if list_ex (eq_ignore_case raw) negative_synonyms then str ''NEGATIVE''
      else if list_ex (eq_ignore_case raw) neutral_synonyms then str ''NEUTRAL''
      else if str_contains (str ''pos'') (str_lower raw) then str ''POSITIVE''
      else if str_contains (str ''neg'') (str_lower raw) then str ''NEGATIVE''
      else str ''NEUTRAL'')"

text \<open>The sum of the scores whose label is routed to bucket \<open>b\<close>.\<close>

definition routed_sum :: "pystr \<Rightarrow> raw_result list \<Rightarrow> real" where
  "routed_sum b rs = sum_list (map score (filter (\<lambda>r. spec_bucket (label r) = b) rs))"


text \<open>
  The number of the configured keywords that occur somewhere in the lower-cased text.
\<close>

definition keyword_count :: "pystr list \<Rightarrow> pystr \<Rightarrow> int" where
  "keyword_count words text0 =
     int (length (filter (\<lambda>word. str_contains word (str_lower text0)) words))"

section \<open>Facts about strings and dictionaries\<close>

lemma str_eq_iff: "str a = str b \<longleftrightarrow> a = b"
  unfolding str_def by (simp add: inj_map_eq_map inj_on_def)

lemma str_contains_sublist: "str_contains sub s \<longleftrightarrow> sublist sub s"
  by (induction s) (auto simp: sublist_Cons_right)

lemma dict_get_update:
  "dict_get (AList.update k v d) k' dflt = (if k' = k then v else dict_get d k' dflt)"
  by (simp add: dict_get_def update_conv')

lemma dict_get_add_score:
  "dict_get (add_score d k s) k' 0 = (if k' = k then dict_get d k 0 + s else dict_get d k' 0)"
  by (simp add: add_score_def dict_get_update)

lemma keys_update: "fst ` set (AList.update k v d) = insert k (fst ` set d)"
proof -
  have "set (map fst (AList.update k v d)) = insert k (set (map fst d))"
    by (auto simp: update_keys)
  then show ?thesis by simp
qed

lemma keys_add_score: "fst ` set (add_score d k s) = insert k (fst ` set d)"
  by (simp add: add_score_def keys_update)

lemma map_of_None_keys: "map_of d k = None \<longleftrightarrow> k \<notin> fst ` set d"
  by (simp add: map_of_eq_None_iff)

lemma keys_ensure_key: "fst ` set (ensure_key d k) = insert k (fst ` set d)"
  by (auto simp: ensure_key_def keys_update map_of_None_keys)

lemma dict_get_ensure_key: "dict_get (ensure_key d k) k' 0 = dict_get d k' 0"
  by (simp add: ensure_key_def dict_get_update) (simp add: dict_get_def)

lemma lower_upper_cp: "lower_cp (upper_cp c) = lower_cp c"
  unfolding lower_cp_def upper_cp_def by (cases "97 \<le> c \<and> c \<le> 122") auto

lemma upper_lower_cp: "upper_cp (lower_cp c) = upper_cp c"
  unfolding lower_cp_def upper_cp_def by (cases "65 \<le> c \<and> c \<le> 90") auto

lemma str_lower_upper: "str_lower (str_upper s) = str_lower s"
  by (simp add: str_lower_def str_upper_def lower_upper_cp)

lemma str_upper_lower: "str_upper (str_lower s) = str_upper s"
  by (simp add: str_lower_def str_upper_def upper_lower_cp)

text \<open>
  Comparing the upper-cased label with an entry that is already in upper case is
  comparing the two without regard to case.
\<close>

lemma upper_eq_iff_lower_eq:
  assumes "str_upper t = t"
  shows "str_upper raw = t \<longleftrightarrow> str_lower raw = str_lower t"
proof
  assume "str_upper raw = t"
  then have "str_lower (str_upper raw) = str_lower t" by simp
  then show "str_lower raw = str_lower t" by (simp add: str_lower_upper)
next
  assume "str_lower raw = str_lower t"
  then have "str_upper (str_lower raw) = str_upper (str_lower t)" by simp
  then show "str_upper raw = t" using assms by (simp add: str_upper_lower)
qed

lemma str_contains_trans:
  "str_contains a b \<Longrightarrow> str_contains b c \<Longrightarrow> str_contains a c"
  unfolding str_contains_sublist by (rule sublist_order.order.trans)

lemma positive_contains_pos: "str_contains (str ''pos'') (str ''positive'')"
  by (simp add: str_def)

lemma negative_contains_neg: "str_contains (str ''neg'') (str ''negative'')"
  by (simp add: str_def)

lemma pos_or_positive:
  "str_contains (str ''positive'') s \<or> str_contains (str ''pos'') s
     \<longleftrightarrow> str_contains (str ''pos'') s"
  using str_contains_trans [OF positive_contains_pos] by blast

lemma neg_or_negative:
  "str_contains (str ''negative'') s \<or> str_contains (str ''neg'') s
     \<longleftrightarrow> str_contains (str ''neg'') s"
  using str_contains_trans [OF negative_contains_neg] by blast

section \<open>The normalizer: code against policy\<close>

lemma upper_in_table:
  assumes "\<forall>t\<in>set tbl. str_upper t = t"
  shows "str_upper raw \<in> set tbl \<longleftrightarrow> list_ex (eq_ignore_case raw) tbl"
proof -
  have "str_upper raw = t \<longleftrightarrow> eq_ignore_case raw t" if "t \<in> set tbl" for t
    using assms that by (simp add: eq_ignore_case_def upper_eq_iff_lower_eq)
  then show ?thesis by (auto simp: list_ex_iff)
qed

lemma positive_table_upper: "\<forall>t\<in>set positive_synonyms. str_upper t = t"
  by (simp add: positive_synonyms_def str_def str_upper_def upper_cp_def)

lemma negative_table_upper: "\<forall>t\<in>set negative_synonyms. str_upper t = t"
  by (simp add: negative_synonyms_def str_def str_upper_def upper_cp_def)

lemma neutral_table_upper: "\<forall>t\<in>set neutral_synonyms. str_upper t = t"
  by (simp add: neutral_synonyms_def str_def str_upper_def upper_cp_def)

lemma positive_table_code:
  "set (map str [''POSITIVE'', ''POS'', ''LABEL_2'', ''5 STARS'', ''4 STARS''])
     = set positive_synonyms"
  by (auto simp: positive_synonyms_def)

lemma negative_table_code:
  "set (map str [''NEGATIVE'', ''NEG'', ''LABEL_0'', ''1 STAR'', ''2 STARS''])
     = set negative_synonyms"
  by (auto simp: negative_synonyms_def)

lemma neutral_table_code:
  "set (map str [''NEUTRAL'', ''NEU'', ''LABEL_1'', ''3 STARS'']) = set neutral_synonyms"
  by (auto simp: neutral_synonyms_def)

lemma normalize_one_spec:
  "normalize_one d r = add_score d (spec_bucket (label r)) (score r)"
  unfolding normalize_one_def spec_bucket_def Let_def
    positive_table_code negative_table_code neutral_table_code
    upper_in_table [OF positive_table_upper] upper_in_table [OF negative_table_upper]
    upper_in_table [OF neutral_table_upper] str_lower_upper pos_or_positive neg_or_negative
  by simp

lemma spec_bucket_canonical:
  "spec_bucket l \<in> {str ''POSITIVE'', str ''NEGATIVE'', str ''NEUTRAL''}"
  by (simp add: spec_bucket_def)

lemma dict_get_normalize_one:
  "dict_get (normalize_one d r) b 0
     = (if b = spec_bucket (label r) then dict_get d b 0 + score r else dict_get d b 0)"
  by (simp add: normalize_one_spec dict_get_add_score)

lemma keys_normalize_one:
  "fst ` set (normalize_one d r) = insert (spec_bucket (label r)) (fst ` set d)"
  by (simp add: normalize_one_spec keys_add_score)

lemma foldl_normalize_get:
  "dict_get (foldl normalize_one d rs) b 0 = dict_get d b 0 + routed_sum b rs"
proof (induction rs arbitrary: d)
  case Nil
  show ?case by (simp add: routed_sum_def)
next
  case (Cons r rs)
  have "dict_get (foldl normalize_one (normalize_one d r) rs) b 0
          = dict_get (normalize_one d r) b 0 + routed_sum b rs"
    by (rule Cons.IH)
  also have "\<dots> = dict_get d b 0 + routed_sum b (r # rs)"
    by (auto simp: dict_get_normalize_one routed_sum_def)
  finally show ?case by simp
qed

lemma foldl_normalize_keys:
  "fst ` set (foldl normalize_one d rs) = fst ` set d \<union> spec_bucket ` label ` set rs"
proof (induction rs arbitrary: d)
  case Nil
  show ?case by simp
next
  case (Cons r rs)
  have "fst ` set (foldl normalize_one (normalize_one d r) rs)
          = fst ` set (normalize_one d r) \<union> spec_bucket ` label ` set rs"
    by (rule Cons.IH)
  also have "\<dots> = fst ` set d \<union> spec_bucket ` label ` set (r # rs)"
    by (auto simp: keys_normalize_one)
  finally show ?case by simp
qed

lemma accumulate_get: "dict_get (accumulate_scores rs) b 0 = routed_sum b rs"
  unfolding accumulate_scores_def foldl_normalize_get by (simp add: dict_get_def)

lemma accumulate_keys:
  "fst ` set (accumulate_scores rs) \<subseteq> {str ''POSITIVE'', str ''NEGATIVE'', str ''NEUTRAL''}"
  using spec_bucket_canonical by (auto simp: accumulate_scores_def foldl_normalize_keys)

lemma normalize_get: "dict_get (normalize_sentiment_labels rs) b 0 = dict_get (accumulate_scores rs) b 0"
  by (simp add: normalize_sentiment_labels_def dict_get_ensure_key)

lemma normalize_keys:
  "fst ` set (normalize_sentiment_labels rs)
     = {str ''POSITIVE'', str ''NEGATIVE'', str ''NEUTRAL''}"
  using accumulate_keys [of rs]
  by (auto simp: normalize_sentiment_labels_def keys_ensure_key)

lemma routed_sum_total:
  "routed_sum (str ''POSITIVE'') rs + routed_sum (str ''NEGATIVE'') rs
     + routed_sum (str ''NEUTRAL'') rs = sum_list (map score rs)"
proof (induction rs)
  case Nil
  show ?case by (simp add: routed_sum_def)
next
  case (Cons r rs)
  have "spec_bucket (label r) = str ''POSITIVE'' \<or> spec_bucket (label r) = str ''NEGATIVE''
          \<or> spec_bucket (label r) = str ''NEUTRAL''"
    using spec_bucket_canonical [of "label r"] by simp
  with Cons show ?case
    by (auto simp: routed_sum_def str_eq_iff)
qed

lemma distinct_add_score: "distinct (map fst d) \<Longrightarrow> distinct (map fst (add_score d k s))"
  by (simp add: add_score_def distinct_update)

lemma distinct_ensure_key: "distinct (map fst d) \<Longrightarrow> distinct (map fst (ensure_key d k))"
  by (simp add: ensure_key_def distinct_update)

lemma distinct_foldl_normalize:
  "distinct (map fst d) \<Longrightarrow> distinct (map fst (foldl normalize_one d rs))"
proof (induction rs arbitrary: d)
  case Nil
  then show ?case by simp
next
  case (Cons r rs)
  from Cons.prems have "distinct (map fst (normalize_one d r))"
    unfolding normalize_one_spec by (rule distinct_add_score)
  then have "distinct (map fst (foldl normalize_one (normalize_one d r) rs))"
    by (rule Cons.IH)
  then show ?case by simp
qed

lemma normalize_distinct: "distinct (map fst (normalize_sentiment_labels rs))"
  by (simp add: normalize_sentiment_labels_def accumulate_scores_def
      distinct_ensure_key distinct_foldl_normalize)

lemma dict_get_present:
  assumes "k \<in> fst ` set d"
  shows "map_of d k = Some (dict_get d k dflt)"
proof -
  from assms have "map_of d k \<noteq> None" by (simp add: map_of_None_keys)
  then show ?thesis by (auto simp: dict_get_def)
qed

lemma normalize_lookup:
  assumes "b \<in> {str ''POSITIVE'', str ''NEGATIVE'', str ''NEUTRAL''}"
  shows "map_of (normalize_sentiment_labels rs) b = Some (dict_get (accumulate_scores rs) b 0)"
proof -
  from assms have "b \<in> fst ` set (normalize_sentiment_labels rs)"
    by (simp only: normalize_keys)
  then have "map_of (normalize_sentiment_labels rs) b
               = Some (dict_get (normalize_sentiment_labels rs) b 0)"
    by (rule dict_get_present)
  then show ?thesis by (simp only: normalize_get)
qed

lemma normalize_sum:
  "dict_get (normalize_sentiment_labels rs) (str ''POSITIVE'') 0
     + dict_get (normalize_sentiment_labels rs) (str ''NEGATIVE'') 0
     + dict_get (normalize_sentiment_labels rs) (str ''NEUTRAL'') 0
   = sum_list (map score rs)"
  by (simp only: normalize_get accumulate_get routed_sum_total)

text \<open>
  C1. For every list of label/score entries, the dictionary returned by the normalizer
  has exactly the three keys POSITIVE, NEGATIVE and NEUTRAL, each once; its three values
  add up to the sum of the input scores; and the value of each key is what the loop
  accumulated for it, or 0.0 when the loop never wrote that key.
\<close>

theorem normalize_three_keys_additive:
  "fst ` set (normalize_sentiment_labels results)
     = {str ''POSITIVE'', str ''NEGATIVE'', str ''NEUTRAL''}
   \<and> distinct (map fst (normalize_sentiment_labels results))
   \<and> dict_get (normalize_sentiment_labels results) (str ''POSITIVE'') 0
       + dict_get (normalize_sentiment_labels results) (str ''NEGATIVE'') 0
       + dict_get (normalize_sentiment_labels results) (str ''NEUTRAL'') 0
     = sum_list (map score results)
   \<and> map_of (normalize_sentiment_labels results) (str ''POSITIVE'')
       = Some (dict_get (accumulate_scores results) (str ''POSITIVE'') 0)
   \<and> map_of (normalize_sentiment_labels results) (str ''NEGATIVE'')
       = Some (dict_get (accumulate_scores results) (str ''NEGATIVE'') 0)
   \<and> map_of (normalize_sentiment_labels results) (str ''NEUTRAL'')
       = Some (dict_get (accumulate_scores results) (str ''NEUTRAL'') 0)"
  by (simp only: normalize_keys normalize_distinct normalize_sum normalize_lookup
      insert_iff simp_thms)

theorem normalize_three_keys_additive_witness:
  "dict_get (normalize_sentiment_labels
       [\<lparr>label = str ''LABEL_0'', score = 1/8\<rparr>, \<lparr>label = str ''LABEL_2'', score = 5/8\<rparr>,
        \<lparr>label = str ''positive-ish'', score = 1/4\<rparr>]) (str ''POSITIVE'') 0
     + dict_get (normalize_sentiment_labels
       [\<lparr>label = str ''LABEL_0'', score = 1/8\<rparr>, \<lparr>label = str ''LABEL_2'', score = 5/8\<rparr>,
        \<lparr>label = str ''positive-ish'', score = 1/4\<rparr>]) (str ''NEGATIVE'') 0
     + dict_get (normalize_sentiment_labels
       [\<lparr>label = str ''LABEL_0'', score = 1/8\<rparr>, \<lparr>label = str ''LABEL_2'', score = 5/8\<rparr>,
        \<lparr>label = str ''positive-ish'', score = 1/4\<rparr>]) (str ''NEUTRAL'') 0
   = (1::real)"
  using normalize_three_keys_additive
    [of "[\<lparr>label = str ''LABEL_0'', score = 1/8\<rparr>, \<lparr>label = str ''LABEL_2'', score = 5/8\<rparr>,
          \<lparr>label = str ''positive-ish'', score = 1/4\<rparr>]"]
  by simp










lemma max_from_mem: "max_from key best xs \<in> set (best # xs)"
  by (induction xs arbitrary: best) auto

lemma max_from_ge_best: "key best \<le> key (max_from key best xs)"
proof (induction xs arbitrary: best)
  case Nil
  show ?case by simp
next
  case (Cons x xs)
  have "key (if key best < key x then x else best)
          \<le> key (max_from key (if key best < key x then x else best) xs)"
    by (rule Cons.IH)
  then show ?case by (auto split: if_splits)
qed

lemma max_from_ge: "x \<in> set (best # xs) \<Longrightarrow> key x \<le> key (max_from key best xs)"
proof (induction xs arbitrary: best)
  case Nil
  then show ?case by simp
next
  case (Cons y ys)
  let ?b = "if key best < key y then y else best"
  have best: "key best \<le> key (max_from key ?b ys)" and y: "key y \<le> key (max_from key ?b ys)"
    using max_from_ge_best [of key ?b ys] by (auto split: if_splits)
  from Cons.prems consider "x = best" | "x = y" | "x \<in> set ys" by auto
  then show ?case
  proof cases
    case 1
    with best show ?thesis by simp
  next
    case 2
    with y show ?thesis by simp
  next
    case 3
    then have "x \<in> set (?b # ys)" by simp
    then have "key x \<le> key (max_from key ?b ys)" by (rule Cons.IH)
    then show ?thesis by simp
  qed
qed

lemma py_max_maximal:
  assumes "py_max key xs = Inr m"
  shows "m \<in> set xs \<and> (\<forall>x\<in>set xs. key x \<le> key m)"
proof (cases xs)
  case Nil
  with assms show ?thesis by (simp add: py_max_def)
next
  case (Cons y ys)
  with assms have m: "m = max_from key y ys" by (simp add: py_max_def)
  show ?thesis
    unfolding m Cons using max_from_mem [of key y ys] max_from_ge [of _ y ys key] by blast
qed

lemma py_max_nonempty: "xs \<noteq> [] \<Longrightarrow> \<exists>m. py_max key xs = Inr m"
  by (cases xs) (simp_all add: py_max_def)

lemma normalize_nonempty: "normalize_sentiment_labels rs \<noteq> []"
  using normalize_keys [of rs] by auto

lemma take_if_longer: "(if length t > n then take n t else t) = take n t"
  by simp

lemma dict_get_entry:
  assumes "distinct (map fst d)" and "(k, v) \<in> set d"
  shows "dict_get d k dflt = v"
  using assms by (simp add: dict_get_def)

lemma dict_entry_of_key:
  assumes "k \<in> fst ` set d"
  shows "(k, dict_get d k dflt) \<in> set d"
proof -
  from assms have "map_of d k = Some (dict_get d k dflt)" by (rule dict_get_present)
  then show ?thesis by (rule map_of_SomeD)
qed

lemma analyze_body_success:
  assumes c: "classifier (take 512 (str_strip text0)) = Inr out"
      and u: "unwrap_results out = Inr results"
  shows "\<exists>m. py_max snd (normalize_sentiment_labels results) = Inr m
           \<and> analyze_body classifier text0
               = Inr \<lparr>sentiment = fst m, confidence = snd m * 100,
                      all_scores = normalize_sentiment_labels results, error = None\<rparr>"
proof -
  obtain m where m: "py_max snd (normalize_sentiment_labels results) = Inr m"
    using py_max_nonempty [OF normalize_nonempty] by blast
  have "analyze_body classifier text0
          = Inr \<lparr>sentiment = fst m, confidence = snd m * 100,
                 all_scores = normalize_sentiment_labels results, error = None\<rparr>"
    unfolding analyze_body_def Let_def take_if_longer by (simp add: c u m)
  with m show ?thesis by blast
qed

text \<open>
  C3. For every text that is not blank and on which the classifier returns an output with
  a first element, \<open>analyze_sentiment\<close> returns, without error, the normalized scores of
  that output as \<open>all_scores\<close>, as \<open>sentiment\<close> one of the three canonical labels whose
  score is at least the score of each of the three, and as \<open>confidence\<close> that score times
  100.
\<close>

theorem analyze_sentiment_maximal:
  assumes nonblank: "text0 \<noteq> []" "str_strip text0 \<noteq> []"
      and c: "classifier (take 512 (str_strip text0)) = Inr out"
      and u: "unwrap_results out = Inr results"
  shows "\<exists>r. analyze_sentiment classifier text0 = Inr r
           \<and> error r = None
           \<and> all_scores r = normalize_sentiment_labels results
           \<and> sentiment r \<in> {str ''POSITIVE'', str ''NEGATIVE'', str ''NEUTRAL''}
           \<and> dict_get (all_scores r) (str ''POSITIVE'') 0 \<le> dict_get (all_scores r) (sentiment r) 0
           \<and> dict_get (all_scores r) (str ''NEGATIVE'') 0 \<le> dict_get (all_scores r) (sentiment r) 0
           \<and> dict_get (all_scores r) (str ''NEUTRAL'') 0 \<le> dict_get (all_scores r) (sentiment r) 0
           \<and> confidence r = dict_get (all_scores r) (sentiment r) 0 * 100"
proof -
  let ?d = "normalize_sentiment_labels results"
  obtain m where m: "py_max snd ?d = Inr m"
    and body: "analyze_body classifier text0
                 = Inr \<lparr>sentiment = fst m, confidence = snd m * 100, all_scores = ?d, error = None\<rparr>"
    using analyze_body_success [of classifier text0 out results] c u by blast
  let ?r = "\<lparr>sentiment = fst m, confidence = snd m * 100, all_scores = ?d, error = None\<rparr>"
  have res: "analyze_sentiment classifier text0 = Inr ?r"
    using nonblank by (simp add: analyze_sentiment_def try_except_def body)
  from py_max_maximal [OF m] have mem: "m \<in> set ?d" and ge: "\<And>x. x \<in> set ?d \<Longrightarrow> snd x \<le> snd m"
    by blast+
  from mem have key: "fst m \<in> fst ` set ?d" by (rule imageI)
  have val: "dict_get ?d (fst m) 0 = snd m"
    using dict_get_entry [OF normalize_distinct, of "fst m" "snd m" results 0] mem by simp
  have le: "dict_get ?d k 0 \<le> snd m" if "k \<in> fst ` set ?d" for k
    using ge [OF dict_entry_of_key [OF that, of 0]] by simp
  have keys: "fst ` set ?d = {str ''POSITIVE'', str ''NEGATIVE'', str ''NEUTRAL''}"
    by (rule normalize_keys)
  have "error ?r = None \<and> all_scores ?r = ?d
        \<and> sentiment ?r \<in> {str ''POSITIVE'', str ''NEGATIVE'', str ''NEUTRAL''}
        \<and> dict_get (all_scores ?r) (str ''POSITIVE'') 0 \<le> dict_get (all_scores ?r) (sentiment ?r) 0
        \<and> dict_get (all_scores ?r) (str ''NEGATIVE'') 0 \<le> dict_get (all_scores ?r) (sentiment ?r) 0
        \<and> dict_get (all_scores ?r) (str ''NEUTRAL'') 0 \<le> dict_get (all_scores ?r) (sentiment ?r) 0
        \<and> confidence ?r = dict_get (all_scores ?r) (sentiment ?r) 0 * 100"
    using key le [of "str ''POSITIVE''"] le [of "str ''NEGATIVE''"] le [of "str ''NEUTRAL''"]
    unfolding keys by (simp add: val)
  with res show ?thesis by blast
qed

lemma strip_demo: "str_strip (str '' ok '') = str ''ok''"
  by (simp add: str_strip_def str_def is_space_def)

theorem analyze_sentiment_maximal_witness:
  "\<exists>r. analyze_sentiment demo_classifier (str '' ok '') = Inr r
       \<and> sentiment r \<in> {str ''POSITIVE'', str ''NEGATIVE'', str ''NEUTRAL''}
       \<and> dict_get (all_scores r) (str ''NEGATIVE'') 0 \<le> dict_get (all_scores r) (sentiment r) 0
       \<and> confidence r = dict_get (all_scores r) (sentiment r) 0 * 100"
proof -
  let ?rs = "[\<lparr>label = str ''LABEL_0'', score = 1/10\<rparr>,
              \<lparr>label = str ''LABEL_1'', score = 2/10\<rparr>,
              \<lparr>label = str ''LABEL_2'', score = 7/10\<rparr>]"
  have a: "str '' ok '' \<noteq> []" by (simp add: str_def)
  have b: "str_strip (str '' ok '') \<noteq> []" unfolding strip_demo by (simp add: str_def)
  have c: "demo_classifier (take 512 (str_strip (str '' ok ''))) = Inr (Nested [?rs])"
    by (simp add: demo_classifier_def)
  have d: "unwrap_results (Nested [?rs]) = Inr ?rs" by simp
  from analyze_sentiment_maximal [of "str '' ok ''" demo_classifier "Nested [?rs]" ?rs, OF a b c d]
  obtain r where "analyze_sentiment demo_classifier (str '' ok '') = Inr r"
    and "sentiment r \<in> {str ''POSITIVE'', str ''NEGATIVE'', str ''NEUTRAL''}"
    and "dict_get (all_scores r) (str ''NEGATIVE'') 0 \<le> dict_get (all_scores r) (sentiment r) 0"
    and "confidence r = dict_get (all_scores r) (sentiment r) 0 * 100"
    by blast
  then show ?thesis by blast
qed

lemma good_and_great:
  "simple_sentiment_analysis (str ''This is good and great'')
     = [(''sentiment'', PyStr (str ''POSITIVE'')), (''confidence'', PyInt 80),
        (''positive_score'', PyInt 2), (''negative_score'', PyInt 0)]"
  by (simp add: simple_sentiment_analysis_def positive_words_def negative_words_def
      str_def str_lower_def lower_cp_def)

lemma bad_and_terrible:
  "simple_sentiment_analysis (str ''bad and terrible'')
     = [(''sentiment'', PyStr (str ''NEGATIVE'')), (''confidence'', PyInt 80),
        (''positive_score'', PyInt 0), (''negative_score'', PyInt 2)]"
  by (simp add: simple_sentiment_analysis_def positive_words_def negative_words_def
      str_def str_lower_def lower_cp_def)

lemma simple_sentiment_general:
  assumes "text0 \<noteq> []"
  shows "simple_sentiment_analysis text0 =
     (let p = keyword_count positive_words text0; n = keyword_count negative_words text0
      in [(''sentiment'',
             PyStr (if p > n then str ''POSITIVE'' else if n > p then str ''NEGATIVE''
                    else str ''NEUTRAL'')),
          (''confidence'',
             PyInt (if p > n then min 90 (60 + 10 * (p - n))
                    else if n > p then min 90 (60 + 10 * (n - p)) else 50)),
          (''positive_score'', PyInt p),
          (''negative_score'', PyInt n)])"
  using assms
  by (simp add: simple_sentiment_analysis_def keyword_count_def Let_def algebra_simps)

text \<open>
  C4. For every non-empty text, with \<open>p\<close> and \<open>n\<close> the numbers of positive and negative
  keywords that occur somewhere in the lower-cased text: if \<open>p > n\<close> the fallback returns
  POSITIVE with confidence \<open>min 90 (60 + 10 (p - n))\<close>; if \<open>n > p\<close> it returns NEGATIVE with
  confidence \<open>min 90 (60 + 10 (n - p))\<close>; otherwise NEUTRAL with confidence 50; the two
  counts are returned as well. "This is good and great" gives POSITIVE with confidence 80
  and "bad and terrible" gives NEGATIVE with confidence 80.
\<close>

theorem simple_sentiment_rule:
  "(text0 \<noteq> [] \<longrightarrow>
      (let p = keyword_count positive_words text0; n = keyword_count negative_words text0
       in (p > n \<longrightarrow>
             simple_sentiment_analysis text0
               = [(''sentiment'', PyStr (str ''POSITIVE'')),
                  (''confidence'', PyInt (min 90 (60 + 10 * (p - n)))),
                  (''positive_score'', PyInt p), (''negative_score'', PyInt n)])
        \<and> (n > p \<longrightarrow>
             simple_sentiment_analysis text0
               = [(''sentiment'', PyStr (str ''NEGATIVE'')),
                  (''confidence'', PyInt (min 90 (60 + 10 * (n - p)))),
                  (''positive_score'', PyInt p), (''negative_score'', PyInt n)])
        \<and> (p = n \<longrightarrow>
             simple_sentiment_analysis text0
               = [(''sentiment'', PyStr (str ''NEUTRAL'')),
                  (''confidence'', PyInt 50),
                  (''positive_score'', PyInt p), (''negative_score'', PyInt n)])))
   \<and> simple_sentiment_analysis (str ''This is good and great'')
       = [(''sentiment'', PyStr (str ''POSITIVE'')), (''confidence'', PyInt 80),
          (''positive_score'', PyInt 2), (''negative_score'', PyInt 0)]
   \<and> simple_sentiment_analysis (str ''bad and terrible'')
       = [(''sentiment'', PyStr (str ''NEGATIVE'')), (''confidence'', PyInt 80),
          (''positive_score'', PyInt 0), (''negative_score'', PyInt 2)]"
  by (simp add: simple_sentiment_general good_and_great bad_and_terrible Let_def)

lemma count_i_like_it:
  "keyword_count positive_words (str ''I LIKE it, I love it, best and happy'') = 4"
  "keyword_count negative_words (str ''I LIKE it, I love it, best and happy'') = 0"
  by (simp_all add: keyword_count_def positive_words_def negative_words_def
      str_def str_lower_def lower_cp_def)

theorem simple_sentiment_rule_witness:
  "str ''I LIKE it, I love it, best and happy'' \<noteq> []
   \<and> keyword_count positive_words (str ''I LIKE it, I love it, best and happy'')
       > keyword_count negative_words (str ''I LIKE it, I love it, best and happy'')
   \<and> simple_sentiment_analysis (str ''I LIKE it, I love it, best and happy'')
       = [(''sentiment'', PyStr (str ''POSITIVE'')), (''confidence'', PyInt 90),
          (''positive_score'', PyInt 4), (''negative_score'', PyInt 0)]"
proof -
  have ne: "str ''I LIKE it, I love it, best and happy'' \<noteq> []" by (simp add: str_def)
  show ?thesis
    using simple_sentiment_rule [of "str ''I LIKE it, I love it, best and happy''"] ne
    by (simp add: count_i_like_it Let_def)
qed

lemma dict_item_missing:
  "map_of d key = None \<Longrightarrow> dict_item d key = Inl (Exception ([39] @ str key @ [39]))"
  by (simp add: dict_item_def)

text \<open>
  C10. The keys of the fallback result depend on the input: for a non-empty text they are
  sentiment, confidence, positive\_score and negative\_score; for the empty text only
  sentiment and confidence, so reading positive\_score or negative\_score there raises
  KeyError, as the row builder of the batch tab does.
\<close>

theorem simple_result_shape:
  "(text0 \<noteq> [] \<longrightarrow>
      map fst (simple_sentiment_analysis text0)
        = [''sentiment'', ''confidence'', ''positive_score'', ''negative_score''])
   \<and> map fst (simple_sentiment_analysis []) = [''sentiment'', ''confidence'']
   \<and> dict_item (simple_sentiment_analysis []) ''positive_score''
       = Inl (Exception ([39] @ str ''positive_score'' @ [39]))
   \<and> dict_item (simple_sentiment_analysis []) ''negative_score''
       = Inl (Exception ([39] @ str ''negative_score'' @ [39]))
   \<and> simple_row [] = Inl (Exception ([39] @ str ''positive_score'' @ [39]))"
  by (simp add: simple_sentiment_general Let_def)
     (simp add: simple_sentiment_analysis_def detect_language_simple_def dict_item_def
        simple_row_def bind_exn_def)

theorem simple_result_shape_witness:
  "str ''good'' \<noteq> []
   \<and> map fst (simple_sentiment_analysis (str ''good''))
       = [''sentiment'', ''confidence'', ''positive_score'', ''negative_score'']"
proof -
  have ne: "str ''good'' \<noteq> []" by (simp add: str_def)
  with simple_result_shape [of "str ''good''"] show ?thesis by blast
qed

lemma strip_empty_all_space:
  assumes "str_strip s = []"
  shows "\<forall>c\<in>set s. is_space c"
proof -
  from assms have all: "\<forall>c\<in>set (dropWhile is_space s). is_space c"
    by (simp add: str_strip_def dropWhile_eq_Nil_conv)
  have "dropWhile is_space s = []"
  proof (rule ccontr)
    assume ne: "dropWhile is_space s \<noteq> []"
    then have "\<not> is_space (hd (dropWhile is_space s))" by (rule hd_dropWhile)
    moreover from ne have "hd (dropWhile is_space s) \<in> set (dropWhile is_space s)" by simp
    ultimately show False using all by blast
  qed
  then show ?thesis by (simp add: dropWhile_eq_Nil_conv)
qed

lemma lower_space: "is_space c \<Longrightarrow> is_space (lower_cp c)"
  by (auto simp: is_space_def lower_cp_def)

lemma keyword_not_in_spaces:
  assumes sp: "\<forall>c\<in>set t. is_space c" and w: "w \<noteq> []" "\<not> is_space (hd w)"
  shows "\<not> str_contains w (str_lower t)"
proof
  assume "str_contains w (str_lower t)"
  then have "sublist w (str_lower t)" by (simp only: str_contains_sublist)
  then have "set w \<subseteq> set (str_lower t)" by (rule set_mono_sublist)
  moreover from w have "hd w \<in> set w" by simp
  ultimately have "hd w \<in> lower_cp ` set t" by (auto simp: str_lower_def)
  then obtain c where "c \<in> set t" "hd w = lower_cp c" by blast
  with sp have "is_space (hd w)" by (simp add: lower_space)
  with w show False by simp
qed

lemma positive_words_letters: "\<forall>w\<in>set positive_words. w \<noteq> [] \<and> \<not> is_space (hd w)"
  by (simp add: positive_words_def str_def is_space_def)

lemma negative_words_letters: "\<forall>w\<in>set negative_words. w \<noteq> [] \<and> \<not> is_space (hd w)"
  by (simp add: negative_words_def str_def is_space_def)

lemma keyword_count_spaces:
  assumes "\<forall>c\<in>set t. is_space c"
  shows "keyword_count positive_words t = 0" "keyword_count negative_words t = 0"
  using keyword_not_in_spaces [OF assms] positive_words_letters negative_words_letters
  by (auto simp: keyword_count_def filter_empty_conv)

lemma simple_whitespace:
  assumes "text0 \<noteq> []" "str_strip text0 = []"
  shows "simple_sentiment_analysis text0
           = [(''sentiment'', PyStr (str ''NEUTRAL'')), (''confidence'', PyInt 50),
              (''positive_score'', PyInt 0), (''negative_score'', PyInt 0)]"
  using assms keyword_count_spaces [OF strip_empty_all_space [OF assms(2)]]
  by (simp add: simple_sentiment_general Let_def)

lemma analyze_sentiment_blank:
  assumes "text0 = [] \<or> str_strip text0 = []"
  shows "analyze_sentiment classifier text0
           = Inr \<lparr>sentiment = str ''NEUTRAL'', confidence = 0,
                  all_scores = [(str ''POSITIVE'', 0), (str ''NEGATIVE'', 0), (str ''NEUTRAL'', 1)],
                  error = Some (str ''Empty text provided'')\<rparr>"
  using assms by (auto simp: analyze_sentiment_def neutral_result_def)

text \<open>
  C5, as stated, fails on the fallback classifier: a text of two spaces is blank, and
  \<open>simple_sentiment_analysis\<close>, which tests \<open>not text\<close> only, returns NEUTRAL with
  confidence 50 for it, not 0.
\<close>

theorem fallback_whitespace_counterexample:
  "str_strip (str ''  '') = []
   \<and> simple_sentiment_analysis (str ''  '')
       = [(''sentiment'', PyStr (str ''NEUTRAL'')), (''confidence'', PyInt 50),
          (''positive_score'', PyInt 0), (''negative_score'', PyInt 0)]
   \<and> map_of (simple_sentiment_analysis (str ''  '')) ''confidence'' \<noteq> Some (PyFloat 0)
   \<and> map_of (simple_sentiment_analysis (str ''  '')) ''confidence'' \<noteq> Some (PyInt 0)"
proof -
  have s: "str_strip (str ''  '') = []" by (simp add: str_strip_def str_def is_space_def)
  have ne: "str ''  '' \<noteq> []" by (simp add: str_def)
  show ?thesis unfolding simple_whitespace [OF ne s] using s by simp
qed

text \<open>
  C5, amended. For every text that is empty or consists of whitespace only,
  \<open>analyze_sentiment\<close> returns NEUTRAL with confidence 0, the scores POSITIVE 0,
  NEGATIVE 0, NEUTRAL 1 and the error "Empty text provided". The fallback
  \<open>simple_sentiment_analysis\<close> returns NEUTRAL with confidence 0 for the empty text; for a
  non-empty text of whitespace only it returns NEUTRAL with confidence 50 and both
  keyword counts 0.
\<close>

theorem blank_text_results:
  "(text0 = [] \<or> str_strip text0 = [] \<longrightarrow>
      analyze_sentiment classifier text0
        = Inr \<lparr>sentiment = str ''NEUTRAL'', confidence = 0,
               all_scores = [(str ''POSITIVE'', 0), (str ''NEGATIVE'', 0), (str ''NEUTRAL'', 1)],
               error = Some (str ''Empty text provided'')\<rparr>)
   \<and> simple_sentiment_analysis []
       = [(''sentiment'', PyStr (str ''NEUTRAL'')), (''confidence'', PyFloat 0)]
   \<and> (text0 \<noteq> [] \<and> str_strip text0 = [] \<longrightarrow>
        simple_sentiment_analysis text0
          = [(''sentiment'', PyStr (str ''NEUTRAL'')), (''confidence'', PyInt 50),
             (''positive_score'', PyInt 0), (''negative_score'', PyInt 0)])"
  using analyze_sentiment_blank [of text0 classifier] simple_whitespace [of text0]
  by (simp add: simple_sentiment_analysis_def)

theorem blank_text_results_witness:
  "str_strip [9, 32, 10] = []
   \<and> analyze_sentiment demo_classifier [9, 32, 10]
       = Inr \<lparr>sentiment = str ''NEUTRAL'', confidence = 0,
              all_scores = [(str ''POSITIVE'', 0), (str ''NEGATIVE'', 0), (str ''NEUTRAL'', 1)],
              error = Some (str ''Empty text provided'')\<rparr>
   \<and> simple_sentiment_analysis [9, 32, 10]
       = [(''sentiment'', PyStr (str ''NEUTRAL'')), (''confidence'', PyInt 50),
          (''positive_score'', PyInt 0), (''negative_score'', PyInt 0)]"
proof -
  have s: "str_strip [9, 32, 10] = []" by (simp add: str_strip_def is_space_def)
  have ne: "[9, 32, 10::nat] \<noteq> []" by simp
  show ?thesis using blank_text_results [of "[9, 32, 10]" demo_classifier] s ne by blast
qed

text \<open>
  C6. With \<open>e\<close>, \<open>h\<close> and \<open>t\<close> the numbers of ASCII letters, of Devanagari code points
  (U+0900 to U+097F) and of Telugu code points (U+0C00 to U+0C7F) of the text: the class
  whose count is strictly greater than both others wins (Hindi, Telugu or English) with
  confidence its count divided by \<open>e + h + t\<close>, times 100; when all three counts are zero
  the language is Unknown with confidence 0.
\<close>

theorem detect_language_simple_plurality:
  "(let e = length (filter is_ascii_alpha text0);
        h = length (filter is_devanagari text0);
        t = length (filter is_telugu text0)
    in (h > e \<and> h > t \<longrightarrow>
          detect_language_simple text0
            = [(''language'', PyStr (str ''Hindi'')),
               (''confidence'', PyFloat (real h / real (e + h + t) * 100))])
     \<and> (t > e \<and> t > h \<longrightarrow>
          detect_language_simple text0
            = [(''language'', PyStr (str ''Telugu'')),
               (''confidence'', PyFloat (real t / real (e + h + t) * 100))])
     \<and> (e > h \<and> e > t \<longrightarrow>
          detect_language_simple text0
            = [(''language'', PyStr (str ''English'')),
               (''confidence'', PyFloat (real e / real (e + h + t) * 100))])
     \<and> (e = 0 \<and> h = 0 \<and> t = 0 \<longrightarrow>
          detect_language_simple text0
            = [(''language'', PyStr (str ''Unknown'')), (''confidence'', PyFloat 0)]))"
  by (cases "text0 = []") (auto simp: detect_language_simple_def Let_def)

theorem detect_language_simple_plurality_witness:
  "length (filter is_telugu [0x0C24, 0x0C46, 0x0C32, 97, 0x0915]) = 3
   \<and> length (filter is_ascii_alpha [0x0C24, 0x0C46, 0x0C32, 97, 0x0915]) = 1
   \<and> length (filter is_devanagari [0x0C24, 0x0C46, 0x0C32, 97, 0x0915]) = 1
   \<and> detect_language_simple [0x0C24, 0x0C46, 0x0C32, 97, 0x0915]
       = [(''language'', PyStr (str ''Telugu'')), (''confidence'', PyFloat 60)]
   \<and> detect_language_simple (str ''?! 42'')
       = [(''language'', PyStr (str ''Unknown'')), (''confidence'', PyFloat 0)]"
proof -
  have c: "length (filter is_telugu [0x0C24, 0x0C46, 0x0C32, 97, 0x0915]) = 3"
    "length (filter is_ascii_alpha [0x0C24, 0x0C46, 0x0C32, 97, 0x0915]) = 1"
    "length (filter is_devanagari [0x0C24, 0x0C46, 0x0C32, 97, 0x0915]) = 1"
    by (simp_all add: is_telugu_def is_ascii_alpha_def is_devanagari_def)
  have z: "length (filter is_telugu (str ''?! 42'')) = 0"
    "length (filter is_ascii_alpha (str ''?! 42'')) = 0"
    "length (filter is_devanagari (str ''?! 42'')) = 0"
    by (simp_all add: is_telugu_def is_ascii_alpha_def is_devanagari_def str_def)
  show ?thesis
    using detect_language_simple_plurality [of "[0x0C24, 0x0C46, 0x0C32, 97, 0x0915]"]
      detect_language_simple_plurality [of "str ''?! 42''"]
    unfolding Let_def c z by simp
qed

lemma analyze_body_classifier_raises:
  "classifier (take 512 (str_strip text0)) = Inl e \<Longrightarrow> analyze_body classifier text0 = Inl e"
  unfolding analyze_body_def Let_def take_if_longer by simp

lemma analyze_body_unwrap_raises:
  "classifier (take 512 (str_strip text0)) = Inr out \<Longrightarrow> unwrap_results out = Inl e
     \<Longrightarrow> analyze_body classifier text0 = Inl e"
  unfolding analyze_body_def Let_def take_if_longer by simp

lemma analyze_body_no_error: "analyze_body classifier text0 = Inr r \<Longrightarrow> error r = None"
  unfolding analyze_body_def Let_def by (auto split: sum.splits)

lemma analyze_sentiment_cases:
  "analyze_sentiment classifier text0 =
     (if text0 = [] \<or> str_strip text0 = [] then Inr (neutral_result (str ''Empty text provided''))
      else case analyze_body classifier text0 of
             Inl e \<Rightarrow> Inr (neutral_result (str ''Error analyzing sentiment: '' @ exn_str e))
           | Inr r \<Rightarrow> Inr r)"
  by (simp add: analyze_sentiment_def try_except_def)

lemma analyze_sentiment_total:
  "\<exists>r. analyze_sentiment classifier text0 = Inr r
       \<and> (error r \<noteq> None \<longrightarrow>
            sentiment r = str ''NEUTRAL'' \<and> confidence r = 0
            \<and> all_scores r = [(str ''POSITIVE'', 0), (str ''NEGATIVE'', 0), (str ''NEUTRAL'', 1)]
            \<and> error r \<noteq> Some [])"
proof (cases "text0 = [] \<or> str_strip text0 = []")
  case True
  then show ?thesis
    by (simp add: analyze_sentiment_cases neutral_result_def str_def)
next
  case False
  show ?thesis
  proof (cases "analyze_body classifier text0")
    case (Inl e)
    with False show ?thesis
      by (simp add: analyze_sentiment_cases neutral_result_def str_def)
  next
    case (Inr r)
    with False analyze_body_no_error [OF Inr] show ?thesis
      by (simp add: analyze_sentiment_cases)
  qed
qed

lemma detect_body_raises:
  "detect_langs (str_strip text0) = Inl e \<Longrightarrow> detect_body detect_langs text0 = Inl e"
  by (simp add: detect_body_def)

lemma detect_body_empty:
  "detect_langs (str_strip text0) = Inr [] \<Longrightarrow>
     detect_body detect_langs text0 = Inr (unknown_language (str ''Could not detect language''))"
  by (simp add: detect_body_def)

lemma supported_iff:
  "map_of supported_languages code \<noteq> None \<longleftrightarrow> code \<in> {str ''en'', str ''hi'', str ''te''}"
  by (auto simp: supported_languages_def)

lemma supported_iff_Some:
  "(\<exists>y. map_of supported_languages code = Some y)
     \<longleftrightarrow> code \<in> {str ''en'', str ''hi'', str ''te''}"
  using supported_iff [of code] by auto

lemma detect_body_top:
  "detect_langs (str_strip text0) = Inr (p # rest) \<Longrightarrow>
     \<exists>r. detect_body detect_langs text0 = Inr r \<and> lang_error r = None
         \<and> language_code r = lang p \<and> lang_confidence r = prob p
         \<and> (is_supported r \<longleftrightarrow> lang p \<in> {str ''en'', str ''hi'', str ''te''})"
  by (simp add: detect_body_def Let_def supported_iff_Some)

lemma detect_language_cases:
  "detect_language detect_langs text0 =
     (if text0 = [] \<or> str_strip text0 = [] then Inr (unknown_language (str ''Empty text provided''))
      else case detect_body detect_langs text0 of
             Inl (LangDetectError m) \<Rightarrow>
               Inr (unknown_language (str ''Language detection error: '' @ m))
           | Inl (Exception m) \<Rightarrow>
               Inr (unknown_language (str ''Unexpected error in language detection: '' @ m))
           | Inr r \<Rightarrow> Inr r)"
  by (simp add: detect_language_def try_except_def split: sum.splits exn.splits)

lemma detect_body_result:
  assumes "detect_body detect_langs text0 = Inr r"
  shows "(lang_error r = None \<longrightarrow> (is_supported r \<longleftrightarrow> language_code r \<in> {str ''en'', str ''hi'', str ''te''}))
       \<and> (lang_error r \<noteq> None \<longrightarrow>
            language r = str ''Unknown'' \<and> language_code r = str ''unknown''
            \<and> lang_confidence r = 0 \<and> \<not> is_supported r \<and> lang_error r \<noteq> Some [])"
proof (cases "detect_langs (str_strip text0)")
  case (Inl e)
  with assms show ?thesis by (simp add: detect_body_def)
next
  case (Inr ps)
  show ?thesis
  proof (cases ps)
    case Nil
    with Inr assms show ?thesis
      by (auto simp: detect_body_def unknown_language_def str_def)
  next
    case (Cons p rest)
    with Inr assms show ?thesis
      by (auto simp: detect_body_def Let_def supported_iff_Some)
  qed
qed

lemma detect_language_total:
  "\<exists>r. detect_language detect_langs text0 = Inr r
       \<and> (lang_error r = None \<longrightarrow> (is_supported r \<longleftrightarrow> language_code r \<in> {str ''en'', str ''hi'', str ''te''}))
       \<and> (lang_error r \<noteq> None \<longrightarrow>
            language r = str ''Unknown'' \<and> language_code r = str ''unknown''
            \<and> lang_confidence r = 0 \<and> \<not> is_supported r \<and> lang_error r \<noteq> Some [])"
proof (cases "text0 = [] \<or> str_strip text0 = []")
  case True
  then show ?thesis by (simp add: detect_language_cases unknown_language_def str_def)
next
  case False
  show ?thesis
  proof (cases "detect_body detect_langs text0")
    case (Inl e)
    with False show ?thesis
      by (cases e) (simp_all add: detect_language_cases unknown_language_def str_def)
  next
    case (Inr r)
    with False detect_body_result [OF Inr] show ?thesis
      by (simp add: detect_language_cases)
  qed
qed


text \<open>
  C8. For every classifier, detector and text, \<open>analyze_sentiment\<close> and \<open>detect_language\<close>
  return a result and raise nothing. A result that carries an error is NEUTRAL with
  confidence 0, the scores POSITIVE 0, NEGATIVE 0, NEUTRAL 1 and a non-empty message,
  respectively Unknown with code unknown, confidence 0, \<open>is_supported\<close> false and a
  non-empty message. For a non-blank text, an exception raised inside the \<open>try\<close> block
  (in particular one raised by the classifier, respectively by \<open>detect_langs\<close>) gives
  exactly that result, with the text of the exception in the message.
\<close>

theorem failures_are_captured:
  "(\<exists>r. analyze_sentiment classifier text0 = Inr r
        \<and> (error r \<noteq> None \<longrightarrow>
             sentiment r = str ''NEUTRAL'' \<and> confidence r = 0
             \<and> all_scores r
                 = [(str ''POSITIVE'', 0), (str ''NEGATIVE'', 0), (str ''NEUTRAL'', 1)]
             \<and> error r \<noteq> Some []))
   \<and> (text0 \<noteq> [] \<and> str_strip text0 \<noteq> [] \<and> analyze_body classifier text0 = Inl e \<longrightarrow>
        analyze_sentiment classifier text0
          = Inr \<lparr>sentiment = str ''NEUTRAL'', confidence = 0,
                 all_scores
                   = [(str ''POSITIVE'', 0), (str ''NEGATIVE'', 0), (str ''NEUTRAL'', 1)],
                 error = Some (str ''Error analyzing sentiment: '' @ exn_str e)\<rparr>)
   \<and> (classifier (take 512 (str_strip text0)) = Inl e \<longrightarrow>
        analyze_body classifier text0 = Inl e)
   \<and> (\<exists>r. detect_language detect_langs text0 = Inr r
        \<and> (lang_error r \<noteq> None \<longrightarrow>
             language r = str ''Unknown'' \<and> language_code r = str ''unknown''
             \<and> lang_confidence r = 0 \<and> \<not> is_supported r \<and> lang_error r \<noteq> Some []))
   \<and> (text0 \<noteq> [] \<and> str_strip text0 \<noteq> [] \<and> detect_langs (str_strip text0) = Inl e' \<longrightarrow>
        detect_language detect_langs text0
          = Inr \<lparr>language = str ''Unknown'', language_code = str ''unknown'',
                 lang_confidence = 0, is_supported = False, all_detections = None,
                 lang_error =
                   Some (case e' of
                           LangDetectError m \<Rightarrow> str ''Language detection error: '' @ m
                         | Exception m \<Rightarrow>
                             str ''Unexpected error in language detection: '' @ m)\<rparr>)"
proof -
  have a: "\<exists>r. analyze_sentiment classifier text0 = Inr r
        \<and> (error r \<noteq> None \<longrightarrow>
             sentiment r = str ''NEUTRAL'' \<and> confidence r = 0
             \<and> all_scores r
                 = [(str ''POSITIVE'', 0), (str ''NEGATIVE'', 0), (str ''NEUTRAL'', 1)]
             \<and> error r \<noteq> Some [])"
    by (rule analyze_sentiment_total)
  have b: "text0 \<noteq> [] \<and> str_strip text0 \<noteq> [] \<and> analyze_body classifier text0 = Inl e \<longrightarrow>
        analyze_sentiment classifier text0
          = Inr \<lparr>sentiment = str ''NEUTRAL'', confidence = 0,
                 all_scores
                   = [(str ''POSITIVE'', 0), (str ''NEGATIVE'', 0), (str ''NEUTRAL'', 1)],
                 error = Some (str ''Error analyzing sentiment: '' @ exn_str e)\<rparr>"
    by (simp add: analyze_sentiment_cases neutral_result_def)
  have c: "classifier (take 512 (str_strip text0)) = Inl e \<longrightarrow>
        analyze_body classifier text0 = Inl e"
    by (simp add: analyze_body_classifier_raises)
  have d: "\<exists>r. detect_language detect_langs text0 = Inr r
        \<and> (lang_error r \<noteq> None \<longrightarrow>
             language r = str ''Unknown'' \<and> language_code r = str ''unknown''
             \<and> lang_confidence r = 0 \<and> \<not> is_supported r \<and> lang_error r \<noteq> Some [])"
  proof -
    from detect_language_total [of detect_langs text0]
    obtain r where r: "detect_language detect_langs text0 = Inr r"
      and bad: "lang_error r \<noteq> None \<longrightarrow>
            language r = str ''Unknown'' \<and> language_code r = str ''unknown''
            \<and> lang_confidence r = 0 \<and> \<not> is_supported r \<and> lang_error r \<noteq> Some []"
      by (elim exE conjE)
    then show ?thesis by (intro exI conjI)
  qed
  have f: "text0 \<noteq> [] \<and> str_strip text0 \<noteq> [] \<and> detect_langs (str_strip text0) = Inl e' \<longrightarrow>
        detect_language detect_langs text0
          = Inr \<lparr>language = str ''Unknown'', language_code = str ''unknown'',
                 lang_confidence = 0, is_supported = False, all_detections = None,
                 lang_error =
                   Some (case e' of
                           LangDetectError m \<Rightarrow> str ''Language detection error: '' @ m
                         | Exception m \<Rightarrow>
                             str ''Unexpected error in language detection: '' @ m)\<rparr>"
    by (cases e')
       (auto simp: detect_language_cases detect_body_raises unknown_language_def)
  from a b c d f show ?thesis by (intro conjI)
qed

lemma strip_hello: "str_strip (str ''hello'') = str ''hello''"
  by (simp add: str_strip_def str_def is_space_def)

theorem failures_are_captured_witness:
  "analyze_sentiment failing_classifier (str ''hello'')
     = Inr \<lparr>sentiment = str ''NEUTRAL'', confidence = 0,
            all_scores = [(str ''POSITIVE'', 0), (str ''NEGATIVE'', 0), (str ''NEUTRAL'', 1)],
            error = Some (str ''Error analyzing sentiment: model unavailable'')\<rparr>
   \<and> detect_language failing_detect_langs (str ''hello'')
     = Inr \<lparr>language = str ''Unknown'', language_code = str ''unknown'',
            lang_confidence = 0, is_supported = False, all_detections = None,
            lang_error = Some (str ''Language detection error: No features in text.'')\<rparr>"
proof -
  have ne: "str ''hello'' \<noteq> []" "str_strip (str ''hello'') \<noteq> []"
    unfolding strip_hello by (simp_all add: str_def)
  have c: "failing_classifier (take 512 (str_strip (str ''hello'')))
             = Inl (Exception (str ''model unavailable''))"
    by (simp add: failing_classifier_def)
  have d: "failing_detect_langs (str_strip (str ''hello''))
             = Inl (LangDetectError (str ''No features in text.''))"
    by (simp add: failing_detect_langs_def)
  have m1: "str ''Error analyzing sentiment: '' @ exn_str (Exception (str ''model unavailable''))
              = str ''Error analyzing sentiment: model unavailable''"
    by (simp add: str_def)
  have m2: "str ''Language detection error: '' @ str ''No features in text.''
              = str ''Language detection error: No features in text.''"
    by (simp add: str_def)
  from failures_are_captured
    [of failing_classifier "str ''hello''" "Exception (str ''model unavailable'')"
        failing_detect_langs "LangDetectError (str ''No features in text.'')"]
  show ?thesis using ne c d unfolding m1 [symmetric] m2 [symmetric] by simp
qed

text \<open>
  C9. \<open>detect_language\<close> always returns a result. When it carries no error, \<open>is_supported\<close>
  holds exactly when \<open>language_code\<close> is one of en, hi, te: for a non-blank text on which
  \<open>detect_langs\<close> returns a non-empty list, the code is that of the first entry and
  \<open>is_supported\<close> says whether it is one of the three. On a blank text, when
  \<open>detect_langs\<close> raises and when it returns no entry, the result carries an error and
  \<open>is_supported\<close> is false.
\<close>

theorem is_supported_iff_code:
  "(\<exists>r. detect_language detect_langs text0 = Inr r
        \<and> (lang_error r = None \<longrightarrow>
             (is_supported r \<longleftrightarrow> language_code r \<in> {str ''en'', str ''hi'', str ''te''}))
        \<and> (lang_error r \<noteq> None \<longrightarrow> \<not> is_supported r))
   \<and> (text0 \<noteq> [] \<and> str_strip text0 \<noteq> [] \<and> detect_langs (str_strip text0) = Inr (p # rest)
        \<longrightarrow> (\<exists>r. detect_language detect_langs text0 = Inr r \<and> lang_error r = None
                 \<and> language_code r = lang p
                 \<and> (is_supported r \<longleftrightarrow> lang p \<in> {str ''en'', str ''hi'', str ''te''})))
   \<and> (text0 = [] \<or> str_strip text0 = [] \<or> detect_langs (str_strip text0) = Inl e
        \<or> detect_langs (str_strip text0) = Inr []
        \<longrightarrow> (\<exists>r. detect_language detect_langs text0 = Inr r \<and> lang_error r \<noteq> None
                 \<and> \<not> is_supported r))"
proof -
  have a: "\<exists>r. detect_language detect_langs text0 = Inr r
        \<and> (lang_error r = None \<longrightarrow>
             (is_supported r \<longleftrightarrow> language_code r \<in> {str ''en'', str ''hi'', str ''te''}))
        \<and> (lang_error r \<noteq> None \<longrightarrow> \<not> is_supported r)"
  proof -
    from detect_language_total [of detect_langs text0]
    obtain r where r: "detect_language detect_langs text0 = Inr r"
      and ok: "lang_error r = None \<longrightarrow>
                 (is_supported r \<longleftrightarrow> language_code r \<in> {str ''en'', str ''hi'', str ''te''})"
      and bad: "lang_error r \<noteq> None \<longrightarrow>
            language r = str ''Unknown'' \<and> language_code r = str ''unknown''
            \<and> lang_confidence r = 0 \<and> \<not> is_supported r \<and> lang_error r \<noteq> Some []"
      by (elim exE conjE)
    from bad have "lang_error r \<noteq> None \<longrightarrow> \<not> is_supported r" by simp
    with r ok show ?thesis by (intro exI conjI)
  qed
  have b: "text0 \<noteq> [] \<and> str_strip text0 \<noteq> [] \<and> detect_langs (str_strip text0) = Inr (p # rest)
        \<longrightarrow> (\<exists>r. detect_language detect_langs text0 = Inr r \<and> lang_error r = None
                 \<and> language_code r = lang p
                 \<and> (is_supported r \<longleftrightarrow> lang p \<in> {str ''en'', str ''hi'', str ''te''}))"
  proof (intro impI, elim conjE)
    assume ne: "text0 \<noteq> []" "str_strip text0 \<noteq> []"
      and dl: "detect_langs (str_strip text0) = Inr (p # rest)"
    from detect_body_top [of detect_langs text0 p rest, OF dl] obtain r where "detect_body detect_langs text0 = Inr r"
      and "lang_error r = None" and "language_code r = lang p"
      and "is_supported r \<longleftrightarrow> lang p \<in> {str ''en'', str ''hi'', str ''te''}"
      by blast
    with ne show "\<exists>r. detect_language detect_langs text0 = Inr r \<and> lang_error r = None
                 \<and> language_code r = lang p
                 \<and> (is_supported r \<longleftrightarrow> lang p \<in> {str ''en'', str ''hi'', str ''te''})"
      by (simp add: detect_language_cases)
  qed
  have c: "text0 = [] \<or> str_strip text0 = [] \<or> detect_langs (str_strip text0) = Inl e
        \<or> detect_langs (str_strip text0) = Inr []
        \<longrightarrow> (\<exists>r. detect_language detect_langs text0 = Inr r \<and> lang_error r \<noteq> None
                 \<and> \<not> is_supported r)"
    by (cases e)
       (auto simp: detect_language_cases detect_body_raises detect_body_empty
          unknown_language_def)
  from a b c show ?thesis by (intro conjI)
qed

theorem is_supported_iff_code_witness:
  "(\<exists>r. detect_language hindi_detect_langs (str ''hello'') = Inr r \<and> lang_error r = None
        \<and> language_code r = str ''hi'' \<and> is_supported r)
   \<and> (\<exists>r. detect_language french_detect_langs (str ''hello'') = Inr r \<and> lang_error r = None
        \<and> language_code r = str ''fr'' \<and> \<not> is_supported r)
   \<and> (\<exists>r. detect_language failing_detect_langs (str ''hello'') = Inr r
        \<and> lang_error r \<noteq> None \<and> \<not> is_supported r)"
proof -
  have ne: "str ''hello'' \<noteq> []" "str_strip (str ''hello'') \<noteq> []"
    unfolding strip_hello by (simp_all add: str_def)
  have h: "hindi_detect_langs (str_strip (str ''hello''))
             = Inr (\<lparr>lang = str ''hi'', prob = 9/10\<rparr> # [\<lparr>lang = str ''mr'', prob = 1/10\<rparr>])"
    by (simp add: hindi_detect_langs_def)
  have f: "french_detect_langs (str_strip (str ''hello''))
             = Inr (\<lparr>lang = str ''fr'', prob = 1\<rparr> # [])"
    by (simp add: french_detect_langs_def)
  have d: "failing_detect_langs (str_strip (str ''hello''))
             = Inl (LangDetectError (str ''No features in text.''))"
    by (simp add: failing_detect_langs_def)
  have 1: "\<exists>r. detect_language hindi_detect_langs (str ''hello'') = Inr r \<and> lang_error r = None
        \<and> language_code r = str ''hi'' \<and> is_supported r"
    using is_supported_iff_code
      [of hindi_detect_langs "str ''hello''" "\<lparr>lang = str ''hi'', prob = 9/10\<rparr>"
          "[\<lparr>lang = str ''mr'', prob = 1/10\<rparr>]"] ne h
    by (auto simp: str_eq_iff)
  have 2: "\<exists>r. detect_language french_detect_langs (str ''hello'') = Inr r \<and> lang_error r = None
        \<and> language_code r = str ''fr'' \<and> \<not> is_supported r"
    using is_supported_iff_code
      [of french_detect_langs "str ''hello''" "\<lparr>lang = str ''fr'', prob = 1\<rparr>" "[]"] ne f
    by (auto simp: str_eq_iff)
  have 3: "\<exists>r. detect_language failing_detect_langs (str ''hello'') = Inr r
        \<and> lang_error r \<noteq> None \<and> \<not> is_supported r"
    using is_supported_iff_code
      [of failing_detect_langs "str ''hello''" _ _ "LangDetectError (str ''No features in text.'')"]
      d
    by blast
  from 1 2 3 show ?thesis by (intro conjI)
qed

lemma text_columns_none:
  "list_all (\<lambda>col. \<not> str_contains (str ''text'') (str_lower col)) (columns df)
     \<Longrightarrow> text_columns df = []"
  by (simp add: text_columns_def filter_empty_conv list_all_iff)

lemma text_columns_first:
  assumes "columns df = pre @ c # post"
      and "str_contains (str ''text'') (str_lower c)"
      and "list_all (\<lambda>col. \<not> str_contains (str ''text'') (str_lower col)) pre"
  shows "\<exists>others. text_columns df = c # others"
proof -
  from assms(3) have "filter (\<lambda>col. str_contains (str ''text'') (str_lower col)) pre = []"
    by (simp add: filter_empty_conv list_all_iff)
  with assms(1,2) show ?thesis by (simp add: text_columns_def)
qed

lemma batch_loop_events:
  "batch_loop f render c n_rows rs idx ui res = (ui', out) \<Longrightarrow>
     \<exists>new. ui' = ui @ new
        \<and> (\<forall>ev\<in>set new. (\<exists>x. ev = St_progress x) \<or> (\<exists>a b. ev = St_status_text a b))"
proof (induction rs arbitrary: idx ui res)
  case Nil
  then show ?case by simp
next
  case (Cons row rest)
  let ?ui = "ui @ [St_progress ((real idx + 1) / real n_rows), St_status_text (idx + 1) n_rows]"
  show ?case
  proof (cases "f (render (row c))")
    case (Inl e)
    with Cons.prems have "ui' = ?ui" by (simp add: Let_def)
    then show ?thesis by auto
  next
    case (Inr r)
    with Cons.prems have "batch_loop f render c n_rows rest (idx + 1) ?ui (res @ [r]) = (ui', out)"
      by (simp add: Let_def)
    from Cons.IH [OF this] obtain new where "ui' = ?ui @ new"
      and "\<forall>ev\<in>set new. (\<exists>x. ev = St_progress x) \<or> (\<exists>a b. ev = St_status_text a b)"
      by blast
    then have "ui' = ui @ ([St_progress ((real idx + 1) / real n_rows),
                            St_status_text (idx + 1) n_rows] @ new)
        \<and> (\<forall>ev\<in>set ([St_progress ((real idx + 1) / real n_rows),
                            St_status_text (idx + 1) n_rows] @ new).
               (\<exists>x. ev = St_progress x) \<or> (\<exists>a b. ev = St_status_text a b))"
      by auto
    then show ?thesis by blast
  qed
qed

lemma batch_loop_results:
  "batch_loop f render c n_rows rs idx ui res = (ui', Inr res') \<Longrightarrow>
     \<exists>new. res' = res @ new \<and> list_all2 (\<lambda>row r. f (render (row c)) = Inr r) rs new"
proof (induction rs arbitrary: idx ui res)
  case Nil
  then show ?case by simp
next
  case (Cons row rest)
  let ?ui = "ui @ [St_progress ((real idx + 1) / real n_rows), St_status_text (idx + 1) n_rows]"
  show ?case
  proof (cases "f (render (row c))")
    case (Inl e)
    with Cons.prems show ?thesis by (simp add: Let_def)
  next
    case (Inr r)
    with Cons.prems have "batch_loop f render c n_rows rest (idx + 1) ?ui (res @ [r]) = (ui', Inr res')"
      by (simp add: Let_def)
    from Cons.IH [OF this] obtain new where "res' = (res @ [r]) @ new"
      and "list_all2 (\<lambda>row r. f (render (row c)) = Inr r) rest new"
      by blast
    with Inr have "res' = res @ (r # new)
        \<and> list_all2 (\<lambda>row r. f (render (row c)) = Inr r) (row # rest) (r # new)"
      by simp
    then show ?thesis by blast
  qed
qed

lemma app_row_text:
  "app_row sa ld t = Inr r \<Longrightarrow> map_of r ''Original_Text'' = Some (PyStr t)"
  by (auto simp: app_row_def bind_exn_def split: sum.splits)

lemma simple_row_text:
  "simple_row t = Inr r \<Longrightarrow> map_of r ''Original_Text'' = Some (PyStr t)"
  by (auto simp: simple_row_def bind_exn_def Let_def split: sum.splits)

lemma original_texts:
  assumes "list_all2 (\<lambda>row r. f (render (row c)) = Inr r) rs new"
      and "\<And>t r. f t = Inr r \<Longrightarrow> map_of r ''Original_Text'' = Some (PyStr t)"
  shows "map (\<lambda>r. map_of r ''Original_Text'') new = map (\<lambda>row. Some (PyStr (render (row c)))) rs"
  using assms(1)
proof (induction rs new rule: list_all2_induct)
  case Nil
  show ?case by simp
next
  case (Cons row rs r new)
  with assms(2) [of "render (row c)" r] show ?case by simp
qed

lemma app_report_dataframe:
  "app_report results = (shown, out) \<Longrightarrow> St_dataframe R \<in> set shown \<Longrightarrow> R = results"
  by (auto simp: app_report_def Let_def split: if_splits)

lemma simple_report_dataframe:
  "simple_report results = (shown, out) \<Longrightarrow> St_dataframe R \<in> set shown \<Longrightarrow> R = results"
  by (auto simp: simple_report_def Let_def split: if_splits)


lemma run_events:
  assumes loop: "batch_loop f render c n_rows rs 0 ui0 [] = (ui', out)"
      and texts: "\<And>t r. f t = Inr r \<Longrightarrow> map_of r ''Original_Text'' = Some (PyStr t)"
      and report: "\<And>results shown o2. report results = (shown, o2) \<Longrightarrow>
                     St_dataframe R \<in> set shown \<Longrightarrow> R = results"
      and ui0: "\<forall>R. St_dataframe R \<notin> set ui0"
      and mem: "St_dataframe R \<in> set
                 (case (ui', out) of
                    (ui, Inl e) \<Rightarrow> ui @ [csv_error e]
                  | (ui, Inr results) \<Rightarrow>
                      (case report results of
                         (shown, Inl e) \<Rightarrow> ui @ shown @ [csv_error e]
                       | (shown, Inr u) \<Rightarrow> ui @ shown))"
  shows "map (\<lambda>r. map_of r ''Original_Text'') R = map (\<lambda>row. Some (PyStr (render (row c)))) rs"
proof -
  from batch_loop_events [OF loop] obtain new where ui': "ui' = ui0 @ new"
    and new: "\<forall>ev\<in>set new. (\<exists>x. ev = St_progress x) \<or> (\<exists>a b. ev = St_status_text a b)"
    by blast
  have no_df: "St_dataframe R \<notin> set ui'"
    using ui0 new unfolding ui' by auto
  show ?thesis
  proof (cases out)
    case (Inl e)
    with mem no_df show ?thesis by (simp add: csv_error_def)
  next
    case (Inr results)
    obtain shown o2 where rep: "report results = (shown, o2)" by (cases "report results")
    from mem no_df Inr rep have "St_dataframe R \<in> set shown"
      by (cases o2) (auto simp: csv_error_def)
    with report [OF rep] have R: "R = results" by simp
    from loop Inr have "batch_loop f render c n_rows rs 0 ui0 [] = (ui', Inr results)" by simp
    from batch_loop_results [OF this] obtain new2 where "results = [] @ new2"
      and "list_all2 (\<lambda>row r. f (render (row c)) = Inr r) rs new2"
      by blast
    with R original_texts [of f render c rs new2] texts show ?thesis by simp
  qed
qed

lemma run_prefix:
  assumes loop: "batch_loop f render c n_rows rs 0 ui0 [] = (ui', out)"
  shows "\<exists>ui. (case (ui', out) of
                    (ui, Inl e) \<Rightarrow> ui @ [csv_error e]
                  | (ui, Inr results) \<Rightarrow>
                      (case report results of
                         (shown, Inl e) \<Rightarrow> ui @ shown @ [csv_error e]
                       | (shown, Inr u) \<Rightarrow> ui @ shown)) = ui0 @ ui"
proof -
  from batch_loop_events [OF loop] obtain new where ui': "ui' = ui0 @ new" by blast
  show ?thesis
  proof (cases out)
    case (Inl e)
    then show ?thesis by (simp add: ui')
  next
    case (Inr results)
    obtain shown o2 where rep: "report results = (shown, o2)" by (cases "report results")
    with Inr show ?thesis by (cases o2) (simp_all add: ui')
  qed
qed

lemma analyze_batch_text_column:
  assumes tc: "text_columns df = c # others"
  shows "(\<exists>ui. analyze_batch_text (Inr df) render sa ld = St_info (using_column_message c) # ui)
       \<and> (\<forall>R. St_dataframe R \<in> set (analyze_batch_text (Inr df) render sa ld) \<longrightarrow>
              map (\<lambda>r. map_of r ''Original_Text'') R
                = map (\<lambda>row. Some (PyStr (render (row c)))) (rows df))"
proof -
  obtain ui' out where loop:
    "batch_loop (app_row sa ld) render c (length (rows df)) (rows df) 0
       [St_info (using_column_message c)] [] = (ui', out)"
    by (cases "batch_loop (app_row sa ld) render c (length (rows df)) (rows df) 0
                 [St_info (using_column_message c)] []")
  have eq: "analyze_batch_text (Inr df) render sa ld =
              (case (ui', out) of
                    (ui, Inl e) \<Rightarrow> ui @ [csv_error e]
                  | (ui, Inr results) \<Rightarrow>
                      (case app_report results of
                         (shown, Inl e) \<Rightarrow> ui @ shown @ [csv_error e]
                       | (shown, Inr u) \<Rightarrow> ui @ shown))"
    by (simp add: analyze_batch_text_def tc loop)
  have 1: "\<exists>ui. analyze_batch_text (Inr df) render sa ld = St_info (using_column_message c) # ui"
    unfolding eq using run_prefix [OF loop, of app_report] by simp
  have 2: "map (\<lambda>r. map_of r ''Original_Text'') R
             = map (\<lambda>row. Some (PyStr (render (row c)))) (rows df)"
    if "St_dataframe R \<in> set (analyze_batch_text (Inr df) render sa ld)" for R
  proof -
    have ui0: "\<forall>R. St_dataframe R \<notin> set [St_info (using_column_message c) :: 'a ui_event]"
      by simp
    from that have "St_dataframe R \<in> set
                 (case (ui', out) of
                    (ui, Inl e) \<Rightarrow> ui @ [csv_error e]
                  | (ui, Inr results) \<Rightarrow>
                      (case app_report results of
                         (shown, Inl e) \<Rightarrow> ui @ shown @ [csv_error e]
                       | (shown, Inr u) \<Rightarrow> ui @ shown))"
      unfolding eq .
    note mem = this
    have t: "\<And>t r. app_row sa ld t = Inr r \<Longrightarrow> map_of r ''Original_Text'' = Some (PyStr t)"
      by (rule app_row_text)
    have rp: "\<And>results shown o2. (app_report results :: 'a ui_event list \<times> (exn + unit)) = (shown, o2)
                \<Longrightarrow> St_dataframe R \<in> set shown \<Longrightarrow> R = results"
      by (rule app_report_dataframe)
    show ?thesis by (rule run_events [OF loop t rp ui0 mem])
  qed
  from 1 2 show ?thesis by blast
qed

lemma main_batch_tab_column:
  assumes tc: "text_columns df = c # others"
  shows "(\<exists>ui. main_batch_tab file_name (Inr df) render clicked
             = [St_success (str ''File uploaded: '' @ file_name),
                St_subheader (str ''File Preview''),
                St_preview (map (\<lambda>row. map row (columns df)) (take 5 (rows df))),
                St_info (using_column_message c)] @ ui)
       \<and> (\<forall>R. St_dataframe R \<in> set (main_batch_tab file_name (Inr df) render clicked) \<longrightarrow>
              map (\<lambda>r. map_of r ''Original_Text'') R
                = map (\<lambda>row. Some (PyStr (render (row c)))) (rows df))"
proof (cases clicked)
  case False
  then show ?thesis by (simp add: main_batch_tab_def tc Let_def)
next
  case True
  let ?ui1 = "[St_success (str ''File uploaded: '' @ file_name),
                St_subheader (str ''File Preview''),
                St_preview (map (\<lambda>row. map row (columns df)) (take 5 (rows df))),
                St_info (using_column_message c)]"
  obtain ui' out where loop:
    "batch_loop simple_row render c (length (rows df)) (rows df) 0 ?ui1 [] = (ui', out)"
    by (cases "batch_loop simple_row render c (length (rows df)) (rows df) 0 ?ui1 []")
  have eq: "main_batch_tab file_name (Inr df) render clicked =
              (case (ui', out) of
                    (ui, Inl e) \<Rightarrow> ui @ [csv_error e]
                  | (ui, Inr results) \<Rightarrow>
                      (case simple_report results of
                         (shown, Inl e) \<Rightarrow> ui @ shown @ [csv_error e]
                       | (shown, Inr u) \<Rightarrow> ui @ shown))"
    using True by (simp add: main_batch_tab_def tc Let_def loop)
  have 1: "\<exists>ui. main_batch_tab file_name (Inr df) render clicked = ?ui1 @ ui"
    unfolding eq using run_prefix [OF loop, of simple_report] by simp
  have 2: "map (\<lambda>r. map_of r ''Original_Text'') R
             = map (\<lambda>row. Some (PyStr (render (row c)))) (rows df)"
    if "St_dataframe R \<in> set (main_batch_tab file_name (Inr df) render clicked)" for R
  proof -
    have ui0: "\<forall>R. St_dataframe R \<notin> set ?ui1" by simp
    from that have "St_dataframe R \<in> set
                 (case (ui', out) of
                    (ui, Inl e) \<Rightarrow> ui @ [csv_error e]
                  | (ui, Inr results) \<Rightarrow>
                      (case simple_report results of
                         (shown, Inl e) \<Rightarrow> ui @ shown @ [csv_error e]
                       | (shown, Inr u) \<Rightarrow> ui @ shown))"
      unfolding eq .
    note mem = this
    have t: "\<And>t r. simple_row t = Inr r \<Longrightarrow> map_of r ''Original_Text'' = Some (PyStr t)"
      by (rule simple_row_text)
    have rp: "\<And>results shown o2. (simple_report results :: 'a ui_event list \<times> (exn + unit)) = (shown, o2)
                \<Longrightarrow> St_dataframe R \<in> set shown \<Longrightarrow> R = results"
      by (rule simple_report_dataframe)
    show ?thesis by (rule run_events [OF loop t rp ui0 mem])
  qed
  from 1 2 show ?thesis by blast
qed


text \<open>
  C7. When no column name of the uploaded frame contains \<open>text\<close> once lower-cased, batch
  analysis stops at the error "No 'text' column found ...": \<open>analyze_batch_text\<close> shows
  that error and nothing else, and the batch tab of the fallback page shows the upload
  notice, the preview and that error; in both, no row is read, no progress is shown and
  no result table or download follows, whatever the rows and the analyzers are. When
  some column name contains \<open>text\<close>, the first such column in column order is announced
  and used: every result table shown holds, as Original\_Text, the cells of that column,
  row by row.
\<close>

theorem batch_text_column:
  "(list_all (\<lambda>col. \<not> str_contains (str ''text'') (str_lower col)) (columns df) \<longrightarrow>
      analyze_batch_text (Inr df) render sa ld = [St_error no_text_column_message]
      \<and> main_batch_tab file_name (Inr df) render clicked
          = [St_success (str ''File uploaded: '' @ file_name),
             St_subheader (str ''File Preview''),
             St_preview (map (\<lambda>row. map row (columns df)) (take 5 (rows df))),
             St_error no_text_column_message])
   \<and> (columns df = pre @ c # post \<and> str_contains (str ''text'') (str_lower c)
       \<and> list_all (\<lambda>col. \<not> str_contains (str ''text'') (str_lower col)) pre \<longrightarrow>
        (\<exists>ui. analyze_batch_text (Inr df) render sa ld
                = St_info (using_column_message c) # ui)
        \<and> (\<forall>R. St_dataframe R \<in> set (analyze_batch_text (Inr df) render sa ld) \<longrightarrow>
               map (\<lambda>r. map_of r ''Original_Text'') R
                 = map (\<lambda>row. Some (PyStr (render (row c)))) (rows df))
        \<and> (\<exists>ui. main_batch_tab file_name (Inr df) render clicked
                = [St_success (str ''File uploaded: '' @ file_name),
                   St_subheader (str ''File Preview''),
                   St_preview (map (\<lambda>row. map row (columns df)) (take 5 (rows df))),
                   St_info (using_column_message c)] @ ui)
        \<and> (\<forall>R. St_dataframe R \<in> set (main_batch_tab file_name (Inr df) render clicked) \<longrightarrow>
               map (\<lambda>r. map_of r ''Original_Text'') R
                 = map (\<lambda>row. Some (PyStr (render (row c)))) (rows df)))"
proof (intro conjI impI)
  assume none: "list_all (\<lambda>col. \<not> str_contains (str ''text'') (str_lower col)) (columns df)"
  show "analyze_batch_text (Inr df) render sa ld = [St_error no_text_column_message]"
    by (simp add: analyze_batch_text_def text_columns_none [OF none])
  show "main_batch_tab file_name (Inr df) render clicked
          = [St_success (str ''File uploaded: '' @ file_name),
             St_subheader (str ''File Preview''),
             St_preview (map (\<lambda>row. map row (columns df)) (take 5 (rows df))),
             St_error no_text_column_message]"
    by (simp add: main_batch_tab_def text_columns_none [OF none] Let_def)
next
  assume h: "columns df = pre @ c # post \<and> str_contains (str ''text'') (str_lower c)
       \<and> list_all (\<lambda>col. \<not> str_contains (str ''text'') (str_lower col)) pre"
  then obtain others where tc: "text_columns df = c # others"
    using text_columns_first [of df pre c post] by blast
  from analyze_batch_text_column [OF tc, of render sa ld]
  show "\<exists>ui. analyze_batch_text (Inr df) render sa ld = St_info (using_column_message c) # ui"
    by (rule conjunct1)
  from analyze_batch_text_column [OF tc, of render sa ld]
  show "\<forall>R. St_dataframe R \<in> set (analyze_batch_text (Inr df) render sa ld) \<longrightarrow>
               map (\<lambda>r. map_of r ''Original_Text'') R
                 = map (\<lambda>row. Some (PyStr (render (row c)))) (rows df)"
    by (rule conjunct2)
  from main_batch_tab_column [OF tc, of file_name render clicked]
  show "\<exists>ui. main_batch_tab file_name (Inr df) render clicked
                = [St_success (str ''File uploaded: '' @ file_name),
                   St_subheader (str ''File Preview''),
                   St_preview (map (\<lambda>row. map row (columns df)) (take 5 (rows df))),
                   St_info (using_column_message c)] @ ui"
    by (rule conjunct1)
  from main_batch_tab_column [OF tc, of file_name render clicked]
  show "\<forall>R. St_dataframe R \<in> set (main_batch_tab file_name (Inr df) render clicked) \<longrightarrow>
               map (\<lambda>r. map_of r ''Original_Text'') R
                 = map (\<lambda>row. Some (PyStr (render (row c)))) (rows df)"
    by (rule conjunct2)
qed

lemma no_text_in_id: "\<not> str_contains (str ''text'') (str_lower (str ''id''))"
  by (simp add: str_def str_lower_def lower_cp_def)

lemma no_text_in_review: "\<not> str_contains (str ''text'') (str_lower (str ''review''))"
  by (simp add: str_def str_lower_def lower_cp_def)

lemma text_in_review_text: "str_contains (str ''text'') (str_lower (str ''Review_Text''))"
  by (simp add: str_def str_lower_def lower_cp_def)

lemma reviews_run_shows_table:
  "\<exists>R. St_dataframe R \<in> set (analyze_batch_text (Inr reviews_frame) id
                                   (analyze_sentiment demo_classifier)
                                   (detect_language hindi_detect_langs))"
proof -
  obtain sr where sr: "analyze_sentiment demo_classifier (str ''good'') = Inr sr"
    using analyze_sentiment_total [of demo_classifier "str ''good''"] by blast
  obtain lr where lr: "detect_language hindi_detect_langs (str ''good'') = Inr lr"
    using detect_language_total [of hindi_detect_langs "str ''good''"] by blast
  obtain row where row: "app_row (analyze_sentiment demo_classifier)
                           (detect_language hindi_detect_langs) (str ''good'') = Inr row"
    by (simp add: app_row_def bind_exn_def sr lr)
  have tc: "text_columns reviews_frame = [str ''Review_Text'', str ''text'']"
    by (simp add: text_columns_def reviews_frame_def no_text_in_id text_in_review_text)
       (simp add: str_def str_lower_def lower_cp_def)
  have rs: "rows reviews_frame = [\<lambda>col. if col = str ''id'' then str ''1''
                    else if col = str ''Review_Text'' then str ''good'' else str ''other'']"
    by (simp add: reviews_frame_def)
  have "St_dataframe [row] \<in> set (analyze_batch_text (Inr reviews_frame) id
                                   (analyze_sentiment demo_classifier)
                                   (detect_language hindi_detect_langs))"
    by (simp add: analyze_batch_text_def tc rs Let_def str_eq_iff row app_report_def)
  then show ?thesis by blast
qed

theorem batch_text_column_witness:
  "analyze_batch_text (Inr numbers_frame) id (analyze_sentiment demo_classifier)
       (detect_language hindi_detect_langs)
     = [St_error no_text_column_message]
   \<and> (\<exists>ui. analyze_batch_text (Inr reviews_frame) id (analyze_sentiment demo_classifier)
              (detect_language hindi_detect_langs)
            = St_info (using_column_message (str ''Review_Text'')) # ui)
   \<and> (\<exists>R. St_dataframe R \<in> set (analyze_batch_text (Inr reviews_frame) id
                                    (analyze_sentiment demo_classifier)
                                    (detect_language hindi_detect_langs))
          \<and> map (\<lambda>r. map_of r ''Original_Text'') R = [Some (PyStr (str ''good''))])"
proof -
  have none: "list_all (\<lambda>col. \<not> str_contains (str ''text'') (str_lower col))
                (columns numbers_frame)"
    by (simp add: numbers_frame_def no_text_in_id no_text_in_review)
  have some: "columns reviews_frame = [str ''id''] @ str ''Review_Text'' # [str ''text'']
       \<and> str_contains (str ''text'') (str_lower (str ''Review_Text''))
       \<and> list_all (\<lambda>col. \<not> str_contains (str ''text'') (str_lower col)) [str ''id'']"
    by (simp add: reviews_frame_def no_text_in_id text_in_review_text)
  have rows: "map (\<lambda>row. Some (PyStr (id (row (str ''Review_Text''))))) (rows reviews_frame)
                = [Some (PyStr (str ''good''))]"
    by (simp add: reviews_frame_def str_eq_iff)
  from batch_text_column
    [of numbers_frame id "analyze_sentiment demo_classifier"
        "detect_language hindi_detect_langs"] none
  have 1: "analyze_batch_text (Inr numbers_frame) id (analyze_sentiment demo_classifier)
       (detect_language hindi_detect_langs)
     = [St_error no_text_column_message]"
    by blast
  from batch_text_column
    [of reviews_frame id "analyze_sentiment demo_classifier"
        "detect_language hindi_detect_langs" _ _ "[str ''id'']" "str ''Review_Text''"
        "[str ''text'']"] some
  have 2: "(\<exists>ui. analyze_batch_text (Inr reviews_frame) id (analyze_sentiment demo_classifier)
              (detect_language hindi_detect_langs)
            = St_info (using_column_message (str ''Review_Text'')) # ui)
   \<and> (\<forall>R. St_dataframe R \<in> set (analyze_batch_text (Inr reviews_frame) id
                                    (analyze_sentiment demo_classifier)
                                    (detect_language hindi_detect_langs)) \<longrightarrow>
          map (\<lambda>r. map_of r ''Original_Text'') R
            = map (\<lambda>row. Some (PyStr (id (row (str ''Review_Text''))))) (rows reviews_frame))"
    by blast
  from 1 2 reviews_run_shows_table show ?thesis unfolding rows by blast
qed

end
